theory Spec2Isabelle
  imports Main "HOL-Library.Sublist" "HOL-Library.Word"
begin

section \<open>Shared vocabulary of the two streamers\<close>

text \<open>
  Both streamers of the repository are closures over a handful of mutable variables; each
  is modelled as a record of those variables, and every function of the script as a
  function from the record to the updated record. What a function does to the outside
  world (the four callbacks it was constructed with, the socket, the decoder, the timers,
  the canvas, the image element) is appended to the field holding the list of effects, in
  the order the script performs them. Console logging (\<^verbatim>\<open>__logInfo\<close>) is left
  out of that list.
\<close>

type_synonym byte = "8 word"

record video_frame =
  frame_id :: nat
  displayWidth :: nat
  displayHeight :: nat

datatype effect =
    SetActive
  | SetInactive
  | SetInfo bool bool string
  | Organize
  | SetSrc string
  | SetInterval nat
  | ClearInterval
  | SetTimeout nat
  | NewWebSocket
  | WsSendBytes "byte list"
  | WsSendStart
  | WsClose
  | NewVideoDecoder
  | DecoderClose
  | DecoderConfigure string
  | DecoderDecode bool "byte list"
  | FrameClose video_frame
  | RequestAnimationFrame
  | CtxSave
  | CtxRestore
  | CtxTranslate nat nat
  | CtxRotate int
  | CtxDrawImage video_frame

text \<open>
  The state snapshot handed to \<^verbatim>\<open>ensureStream\<close>: \<^verbatim>\<open>state.source.online\<close> and
  \<^verbatim>\<open>state.stream.clients_stat\<close>, the latter mapping a client id to its
  \<^verbatim>\<open>fps\<close>.
\<close>

record snapshot =
  online :: bool
  clients_stat :: "string \<rightharpoonup> int"

datatype error = TypeError | SyntaxError | InvalidStateError | DrawError | Error string

text \<open>Template literals print a number in decimal.\<close>

fun digits :: "nat \<Rightarrow> string" where
  "digits n = (if n < 10 then [char_of (48 + n)]
               else digits (n div 10) @ [char_of (48 + n mod 10)])"

declare digits.simps [simp del]

definition show_int :: "int \<Rightarrow> string" where
  "show_int i = (if i < 0 then CHR ''-'' # digits (nat (- i)) else digits (nat i))"

text \<open>
  The values a property read on a string primitive can give, as far as a comparison with a
  number is concerned: \<^verbatim>\<open>length\<close> is a number, a name the string does not have
  is \<^verbatim>\<open>undefined\<close>, and \<^verbatim>\<open>undefined > 0\<close> is false.
\<close>

datatype jsval = Undefined | Number int

definition str_get :: "string \<Rightarrow> string \<Rightarrow> jsval" where
  "str_get s name = (if name = ''length'' then Number (int (length s)) else Undefined)"

fun js_gt :: "jsval \<Rightarrow> int \<Rightarrow> bool" where
  "js_gt Undefined n = False"
| "js_gt (Number a) n = (n < a)"

fun js_lt :: "jsval \<Rightarrow> int \<Rightarrow> bool" where
  "js_lt Undefined n = False"
| "js_lt (Number a) n = (a < n)"

fun js_ge :: "jsval \<Rightarrow> int \<Rightarrow> bool" where
  "js_ge Undefined n = False"
| "js_ge (Number a) n = (n \<le> a)"

definition show_js :: "jsval \<Rightarrow> string" where
  "show_js v = (case v of Undefined \<Rightarrow> ''undefined'' | Number i \<Rightarrow> show_int i)"

text \<open>
  The statistics are a plain object parsed from JSON, so besides the client ids it lists,
  the operator \<^verbatim>\<open>in\<close> finds the names every object inherits, and reading
  \<^verbatim>\<open>fps\<close> of what such a name gives is \<^verbatim>\<open>undefined\<close>. Reading it of a name
  the object does not have at all raises.
\<close>

definition object_prototype :: "string list" where
  "object_prototype =
     [''constructor'', ''hasOwnProperty'', ''isPrototypeOf'', ''propertyIsEnumerable'',
      ''toLocaleString'', ''toString'', ''valueOf'', ''__defineGetter__'', ''__defineSetter__'',
      ''__lookupGetter__'', ''__lookupSetter__'', ''__proto__'']"

definition js_in :: "string \<Rightarrow> (string \<rightharpoonup> int) \<Rightarrow> bool" where
  "js_in name stat = (stat name \<noteq> None \<or> name \<in> set object_prototype)"

definition get_fps :: "(string \<rightharpoonup> int) \<Rightarrow> string \<Rightarrow> error + jsval" where
  "get_fps stat name =
     (case stat name of
        Some f \<Rightarrow> Inr (Number f)
      | None \<Rightarrow> if name \<in> set object_prototype then Inr Undefined else Inl TypeError)"

section \<open>The MJPEG streamer (stream\_mjpeg.js)\<close>

text \<open>
  What the script takes from outside: \<^verbatim>\<open>ROOT_PREFIX\<close> of vars.js,
  \<^verbatim>\<open>tools.makeRandomId\<close> (the result of its n-th call),
  \<^verbatim>\<open>encodeURIComponent\<close>, the browser flags of \<^verbatim>\<open>tools.browser\<close>, and
  the URL the image element reports back for an assigned \<^verbatim>\<open>src\<close>.
\<close>

record penv =
  ROOT_PREFIX :: string
  makeRandomId :: "nat \<Rightarrow> string"
  encodeURIComponent :: "string \<Rightarrow> string"
  is_safari :: bool
  is_ios :: bool
  is_chrome :: bool
  is_blink :: bool
  href :: "string \<Rightarrow> string"

text \<open>
  The variables of \<^verbatim>\<open>MjpegStreamer\<close>, then what it reads and writes outside
  itself: the \<^verbatim>\<open>stream_client\<close> cookie, the \<^verbatim>\<open>src\<close> of the image
  element, the number of random ids drawn so far, and the effects performed. The timer
  handle is \<open>True\<close> while an interval is set.
\<close>

record mjpeg =
  key :: string
  id' :: string
  fps :: jsval
  state :: "snapshot option"
  timer :: bool
  timer_retries :: int
  stream_client :: "string option"
  src :: string
  random_ids :: nat
  effects :: "effect list"

definition emit :: "effect \<Rightarrow> mjpeg \<Rightarrow> mjpeg" where
  "emit x s = s\<lparr>effects := effects s @ [x]\<rparr>"

definition new_key :: "penv \<Rightarrow> mjpeg \<Rightarrow> mjpeg" where
  "new_key e s = s\<lparr>key := makeRandomId e (random_ids s), random_ids := Suc (random_ids s)\<rparr>"

definition MjpegStreamer :: "penv \<Rightarrow> string option \<Rightarrow> string \<Rightarrow> mjpeg" where
  "MjpegStreamer e cookie img =
     \<lparr>key = makeRandomId e 0, id' = '''', fps = Number (- 1), state = None, timer = False,
      timer_retries = 0, stream_client = cookie, src = img, random_ids = 1, effects = []\<rparr>"

definition set_src :: "penv \<Rightarrow> string \<Rightarrow> mjpeg \<Rightarrow> mjpeg" where
  "set_src e path s = emit (SetSrc path) (s\<lparr>src := href e path\<rparr>)"

definition setStreamActive :: "mjpeg \<Rightarrow> error + mjpeg" where
  "setStreamActive s =
     (case state s of
        None \<Rightarrow> Inl TypeError
      | Some st \<Rightarrow>
          (case get_fps (clients_stat st) (id' s) of
             Inl x \<Rightarrow> Inl x
           | Inr f \<Rightarrow>
               let old_fps = fps s;
                   s1 = s\<lparr>fps := f\<rparr>;
                   s2 = (if js_lt old_fps 0 then emit SetActive s1 else s1)
               in Inr (emit (SetInfo True (online st) (show_js f @ '' fps dynamic'')) s2)))"

definition setStreamInactive :: "penv \<Rightarrow> mjpeg \<Rightarrow> mjpeg" where
  "setStreamInactive e s =
     (let old_fps = fps s;
          s1 = (new_key e s)\<lparr>id' := '''', fps := Number (- 1), state := None\<rparr>
      in if js_ge old_fps 0 then emit (SetInfo False False '''') (emit SetInactive s1) else s1)"

definition ensureChecking :: "mjpeg \<Rightarrow> mjpeg" where
  "ensureChecking s =
     (if \<not> timer s then emit (SetInterval 100) (s\<lparr>timer_retries := 10, timer := True\<rparr>) else s)"

definition stopChecking :: "mjpeg \<Rightarrow> mjpeg" where
  "stopChecking s =
     (let s1 = (if timer s then emit ClearInterval s else s)
      in s1\<lparr>timer := False, timer_retries := 0\<rparr>)"

text \<open>\<^verbatim>\<open>sc.indexOf("/")\<close>: the position of the first slash, or -1.\<close>

fun indexOf :: "string \<Rightarrow> char \<Rightarrow> int" where
  "indexOf [] c = - 1"
| "indexOf (x # xs) c = (if x = c then 0 else (let i = indexOf xs c in if i < 0 then - 1 else i + 1))"

definition findId :: "mjpeg \<Rightarrow> mjpeg" where
  "findId s =
     (case stream_client s of
        None \<Rightarrow> s
      | Some sc \<Rightarrow>
          if length (id' s) = 0 \<and> sc \<noteq> '''' \<and> prefix (key s @ ''/'') sc
          then s\<lparr>id' := drop (nat (indexOf sc CHR ''/'' + 1)) sc\<rparr>
          else s)"

definition mjpeg_ensureStream :: "penv \<Rightarrow> snapshot option \<Rightarrow> mjpeg \<Rightarrow> error + mjpeg" where
  "mjpeg_ensureStream e st s =
     (case st of
        Some snap \<Rightarrow>
          (let s1 = findId (s\<lparr>state := Some snap\<rparr>)
           in if 0 < length (id' s1) \<and> js_in (id' s1) (clients_stat snap)
              then (case setStreamActive s1 of
                      Inl x \<Rightarrow> Inl x
                    | Inr s2 \<Rightarrow> Inr (emit Organize (stopChecking s2)))
              else Inr (ensureChecking s1))
      | None \<Rightarrow> Inr (setStreamInactive e (stopChecking s)))"

definition blank :: "penv \<Rightarrow> string" where
  "blank e = ROOT_PREFIX e @ ''share/png/blank-stream.png''"

definition mjpeg_stopStream :: "penv \<Rightarrow> mjpeg \<Rightarrow> error + mjpeg" where
  "mjpeg_stopStream e s =
     (case mjpeg_ensureStream e None s of
        Inl x \<Rightarrow> Inl x
      | Inr s1 \<Rightarrow> Inr (if \<not> suffix (blank e) (src s1) then set_src e (blank e) s1 else s1))"

definition stream_path :: "penv \<Rightarrow> string \<Rightarrow> string" where
  "stream_path e k =
     (let path = ROOT_PREFIX e @ ''streamer/stream?key='' @ encodeURIComponent e k
      in if is_safari e \<or> is_ios e then path @ ''&dual_final_frames=1''
         else if is_chrome e \<or> is_blink e then path @ ''&advance_headers=1''
         else path)"

text \<open>
  The failure branch of \<^verbatim>\<open>__checkStream\<close>: the path is built after
  \<^verbatim>\<open>__setStreamInactive\<close> has drawn the new key.
\<close>

definition refresh :: "penv \<Rightarrow> mjpeg \<Rightarrow> mjpeg" where
  "refresh e s =
     (let s1 = stopChecking (setStreamInactive e s)
      in set_src e (stream_path e (key s1)) s1)"

text \<open>
  \<^verbatim>\<open>__checkStream\<close>. The first condition reads the property \<^verbatim>\<open>legnth\<close> of
  the id, as the script spells it; its right operand is evaluated only when the left one
  holds, and would raise on a null snapshot.
\<close>

definition checkStream :: "penv \<Rightarrow> mjpeg \<Rightarrow> error + mjpeg" where
  "checkStream e s =
     (let s1 = findId s;
          present = (if js_gt (str_get (id' s1) ''legnth'') 0
                     then (case state s1 of
                             None \<Rightarrow> Inl TypeError
                           | Some snap \<Rightarrow> Inr (js_in (id' s1) (clients_stat snap)))
                     else Inr False)
      in case present of
           Inl x \<Rightarrow> Inl x
         | Inr True \<Rightarrow>
             (case setStreamActive s1 of
                Inl x \<Rightarrow> Inl x
              | Inr s2 \<Rightarrow> Inr (stopChecking s2))
         | Inr False \<Rightarrow>
             if 0 < length (id' s1) \<and> 0 \<le> timer_retries s1
             then Inr (s1\<lparr>timer_retries := timer_retries s1 - 1\<rparr>)
             else Inr (refresh e s1))"

text \<open>
  The interval calls \<^verbatim>\<open>__checkStream\<close> only while it is set. A run of poll ticks
  is given by the value the browser holds for the cookie at each tick.
\<close>

definition tick :: "penv \<Rightarrow> mjpeg \<Rightarrow> error + mjpeg" where
  "tick e s = (if timer s then checkStream e s else Inr s)"

fun ticks :: "penv \<Rightarrow> string option list \<Rightarrow> mjpeg \<Rightarrow> error + mjpeg" where
  "ticks e [] s = Inr s"
| "ticks e (c # cs) s =
     (case tick e (s\<lparr>stream_client := c\<rparr>) of
        Inl x \<Rightarrow> Inl x
      | Inr s' \<Rightarrow> ticks e cs s')"

section \<open>The direct H.264 streamer (\<^verbatim>\<open>MediaStreamer\<close>)\<close>

text \<open>
  What the script takes from the browser: the flags \<^verbatim>\<open>tools.browser.is_firefox\<close>,
  \<^verbatim>\<open>window.VideoDecoder\<close> and \<^verbatim>\<open>tools.is_https\<close>, and the two decoder
  calls the script guards with \<^verbatim>\<open>try\<close>: whether \<^verbatim>\<open>close()\<close> of a decoder
  that has already closed raises, and which codec strings \<^verbatim>\<open>configure()\<close>
  accepts.

  Every handler runs to the end before the next event is taken: the script is single
  threaded and the \<^verbatim>\<open>await\<close>s of the message handler wait for nothing that another
  handler could precede. The exceptions of the model are the one \<^verbatim>\<open>__ping\<close> throws
  itself, a method call on the socket variable while it is null, unparsable message text,
  and the three browser calls whose failure the script prepares for or the properties speak
  of: \<^verbatim>\<open>close()\<close> and \<^verbatim>\<open>configure()\<close> of the decoder and
  \<^verbatim>\<open>drawImage\<close>. The other calls (the socket constructor, \<^verbatim>\<open>close()\<close> and
  \<^verbatim>\<open>send()\<close> of a socket that is held, \<^verbatim>\<open>decode()\<close>, \<^verbatim>\<open>close()\<close> of a
  frame, the callbacks, the other canvas calls) return. An exception of the browser is
  shown to the info callback under its name.
\<close>

record platform =
  is_firefox :: bool
  has_VideoDecoder :: bool
  is_https :: bool
  close_closed_raises :: bool
  configure_accepts :: "string \<Rightarrow> bool"

datatype decoder_state = Unconfigured | Configured | Closed

record video_decoder =
  dstate :: decoder_state
  configured_with :: string

text \<open>
  The variables of \<^verbatim>\<open>MediaStreamer\<close>, in the order the script declares them,
  with the size of the canvas, the orientation it was constructed with and the effects
  performed. The socket and the heartbeat timer are \<open>True\<close> while the variable holds a
  handle.
\<close>

record media =
  stop :: bool
  ensuring :: bool
  ws :: bool
  ping_timer :: bool
  missed_heartbeats :: int
  codec :: string
  decoder :: "video_decoder option"
  frame :: "video_frame option"
  canvas_width :: nat
  canvas_height :: nat
  orient :: int
  state' :: "snapshot option"
  fps_accum :: nat
  trace :: "effect list"

definition MediaStreamer :: "int \<Rightarrow> nat \<Rightarrow> nat \<Rightarrow> media" where
  "MediaStreamer orientation w h =
     \<lparr>stop = False, ensuring = False, ws = False, ping_timer = False, missed_heartbeats = 0,
      codec = [], decoder = None, frame = None, canvas_width = w, canvas_height = h,
      orient = orientation, state' = None, fps_accum = 0, trace = []\<rparr>"

definition perform :: "effect \<Rightarrow> media \<Rightarrow> media" where
  "perform x s = s\<lparr>trace := trace s @ [x]\<rparr>"

text \<open>
  A function of the script either returns or raises; the variables keep what was assigned
  before the raise.
\<close>

datatype outcome = Returned | Raised error

definition and_then :: "media \<times> outcome \<Rightarrow> (media \<Rightarrow> media \<times> outcome) \<Rightarrow> media \<times> outcome" where
  "and_then r f = (case r of (s, Returned) \<Rightarrow> f s | (s, Raised x) \<Rightarrow> (s, Raised x))"

definition error_message :: "error \<Rightarrow> string" where
  "error_message x =
     (case x of
        Error m \<Rightarrow> m
      | TypeError \<Rightarrow> ''TypeError''
      | SyntaxError \<Rightarrow> ''SyntaxError''
      | InvalidStateError \<Rightarrow> ''InvalidStateError''
      | DrawError \<Rightarrow> ''DrawError'')"

definition ensureMedia :: "bool \<Rightarrow> media \<Rightarrow> media" where
  "ensureMedia internal s =
     (if \<not> ws s \<and> \<not> stop s \<and> (\<not> ensuring s \<or> internal)
      then (perform NewWebSocket
              (perform (SetInfo False False [])
                 (perform SetInactive (s\<lparr>ensuring := True\<rparr>))))\<lparr>ws := True\<rparr>
      else s)"

definition media_ensureStream :: "snapshot option \<Rightarrow> media \<Rightarrow> media" where
  "media_ensureStream st s = ensureMedia False (s\<lparr>state' := st, stop := False\<rparr>)"

definition wsOpenHandler :: "media \<Rightarrow> media" where
  "wsOpenHandler s = perform (SetInterval 1000) (s\<lparr>missed_heartbeats := 0, ping_timer := True\<rparr>)"

definition closeFrame :: "platform \<Rightarrow> video_frame \<Rightarrow> media \<Rightarrow> media" where
  "closeFrame p f s = (if \<not> is_firefox p then perform (FrameClose f) s else s)"

definition decoder_close :: "platform \<Rightarrow> video_decoder \<Rightarrow> outcome" where
  "decoder_close p d =
     (if dstate d = Closed \<and> close_closed_raises p then Raised InvalidStateError else Returned)"

text \<open>
  \<^verbatim>\<open>__closeDecoder\<close>: the \<^verbatim>\<open>finally\<close> block runs whether or not
  \<^verbatim>\<open>close()\<close> raised, and the raise then goes on to the caller.
\<close>

definition closeDecoder :: "platform \<Rightarrow> media \<Rightarrow> media \<times> outcome" where
  "closeDecoder p s =
     (case decoder s of
        None \<Rightarrow> (s, Returned)
      | Some d \<Rightarrow>
          (let s1 = perform DecoderClose s;
               r = decoder_close p d;
               s2 = s1\<lparr>codec := [], decoder := None\<rparr>;
               s3 = (case frame s2 of
                       None \<Rightarrow> s2
                     | Some f \<Rightarrow> (closeFrame p f s2)\<lparr>frame := None\<rparr>)
           in (s3, r)))"

definition wsCloseHandler :: "platform \<Rightarrow> media \<Rightarrow> media \<times> outcome" where
  "wsCloseHandler p s =
     (let s1 = (if ping_timer s then (perform ClearInterval s)\<lparr>ping_timer := False\<rparr> else s)
      in and_then (closeDecoder p s1)
           (\<lambda>s2. let s3 = s2\<lparr>missed_heartbeats := 0, fps_accum := 0, ws := False\<rparr>
                 in (if \<not> stop s3 then perform (SetTimeout 1000) s3 else s3, Returned)))"

definition wsForceClose :: "platform \<Rightarrow> media \<Rightarrow> media \<times> outcome" where
  "wsForceClose p s =
     (let s1 = (if ws s then perform WsClose s else s)
      in and_then (wsCloseHandler p s1) (\<lambda>s2. (perform SetInactive s2, Returned)))"

definition wsErrorHandler :: "platform \<Rightarrow> string \<Rightarrow> media \<Rightarrow> media \<times> outcome" where
  "wsErrorHandler p ev s = wsForceClose p (perform (SetInfo False False ev) s)"

definition media_stopStream :: "platform \<Rightarrow> media \<Rightarrow> media \<times> outcome" where
  "media_stopStream p s =
     and_then (wsForceClose p (s\<lparr>stop := True, ensuring := False\<rparr>))
       (\<lambda>s1. (perform (SetInfo False False []) s1, Returned))"

text \<open>\<^verbatim>\<open>__ws.send\<close>: a TypeError when the variable is null.\<close>

definition ws_send :: "effect \<Rightarrow> media \<Rightarrow> media \<times> outcome" where
  "ws_send x s = (if ws s then (perform x s, Returned) else (s, Raised TypeError))"

definition ping_info :: "media \<Rightarrow> media" where
  "ping_info s =
     (case decoder s of
        None \<Rightarrow> s
      | Some d \<Rightarrow>
          if dstate d = Configured
          then (let on = (case state' s of None \<Rightarrow> False | Some st \<Rightarrow> online st);
                    info = digits (fps_accum s) @ '' fps dynamic''
                in perform (SetInfo True on info) (s\<lparr>fps_accum := 0\<rparr>))
          else s)"

definition ping :: "platform \<Rightarrow> media \<Rightarrow> media \<times> outcome" where
  "ping p s =
     (let s1 = s\<lparr>missed_heartbeats := missed_heartbeats s + 1\<rparr>;
          r = (if 5 \<le> missed_heartbeats s1
               then (s1, Raised (Error ''Too many missed heartbeats''))
               else and_then (ws_send (WsSendBytes [0]) s1) (\<lambda>s2. (ping_info s2, Returned)))
      in case r of
           (s3, Returned) \<Rightarrow> (s3, Returned)
         | (s3, Raised x) \<Rightarrow> wsErrorHandler p (error_message x) s3)"

text \<open>
  What \<^verbatim>\<open>event.video\<close> of a parsed event holds: nothing, or the formats, with the
  \<^verbatim>\<open>profile_level_id\<close> of \<^verbatim>\<open>h264\<close> when that format is listed. Reading
  \<^verbatim>\<open>h264\<close> of nothing raises, after the decoder has been torn down.
\<close>

datatype video_formats = NoVideo | Video "string option"

definition setupCodec :: "platform \<Rightarrow> video_formats \<Rightarrow> media \<Rightarrow> media \<times> outcome" where
  "setupCodec p formats s =
     and_then (closeDecoder p s)
       (\<lambda>s1. case formats of
               NoVideo \<Rightarrow> (s1, Raised TypeError)
             | Video None \<Rightarrow>
                 (perform (SetInfo False False ''No H.264 stream available on PiKVM'') s1,
                  Returned)
             | Video (Some profile_level_id) \<Rightarrow>
                 if \<not> has_VideoDecoder p
                 then (perform (SetInfo False False
                         (if \<not> is_https p then ''Direct H.264 requires HTTPS''
                          else ''This browser can't handle direct H.264 stream'')) s1, Returned)
                 else ws_send WsSendStart (s1\<lparr>codec := ''avc1.'' @ profile_level_id\<rparr>))"

text \<open>
  \<^verbatim>\<open>__wsJsonHandler\<close> gets the type and the payload of the event; a media event
  without a payload raises when its \<^verbatim>\<open>video\<close> is read.
\<close>

definition wsJsonHandler ::
  "platform \<Rightarrow> string \<Rightarrow> video_formats option \<Rightarrow> media \<Rightarrow> media \<times> outcome" where
  "wsJsonHandler p ev_type ev s =
     (if ev_type = ''media''
      then (case ev of None \<Rightarrow> (s, Raised TypeError) | Some formats \<Rightarrow> setupCodec p formats s)
      else (s, Returned))"

definition new_decoder :: video_decoder where
  "new_decoder = \<lparr>dstate = Unconfigured, configured_with = []\<rparr>"

text \<open>
  \<^verbatim>\<open>__ensureDecoder\<close>, in its three steps: replace a missing or closed decoder,
  keeping the codec string over the teardown; configure on a key frame; report.
\<close>

definition replace_decoder :: "platform \<Rightarrow> media \<Rightarrow> media \<times> outcome" where
  "replace_decoder p s =
     (if decoder s = None \<or> map_option dstate (decoder s) = Some Closed
      then (let started = (codec s \<noteq> []);
                codec0 = codec s
            in and_then (closeDecoder p s)
                 (\<lambda>s1. let s2 = perform NewVideoDecoder (s1\<lparr>codec := codec0\<rparr>);
                           s3 = s2\<lparr>decoder := Some new_decoder\<rparr>
                       in if started then ws_send (WsSendBytes [0]) s3 else (s3, Returned)))
      else (s, Returned))"

definition decoder_configure :: "platform \<Rightarrow> video_decoder \<Rightarrow> media \<Rightarrow> media \<times> outcome" where
  "decoder_configure p d s =
     (let s1 = perform (DecoderConfigure (codec s)) s
      in if dstate d = Closed then (s1, Raised InvalidStateError)
         else if \<not> configure_accepts p (codec s) then (s1, Raised TypeError)
         else (s1\<lparr>decoder := Some (d\<lparr>dstate := Configured, configured_with := codec s\<rparr>)\<rparr>,
               Returned))"

definition ensureDecoder :: "platform \<Rightarrow> bool \<Rightarrow> media \<Rightarrow> media \<times> (error + bool)" where
  "ensureDecoder p k s =
     (if codec s = [] then (s, Inr False)
      else case replace_decoder p s of
             (s1, Raised x) \<Rightarrow> (s1, Inl x)
           | (s1, Returned) \<Rightarrow>
               (case decoder s1 of
                  None \<Rightarrow> (s1, Inl TypeError)
                | Some d \<Rightarrow>
                    if dstate d \<noteq> Configured \<and> \<not> k then (s1, Inr False)
                    else (case (if dstate d \<noteq> Configured then decoder_configure p d s1
                                else (s1, Returned)) of
                            (s2, Raised x) \<Rightarrow> (s2, Inl x)
                          | (s2, Returned) \<Rightarrow>
                              if map_option dstate (decoder s2) = Some Configured
                              then (perform SetActive s2, Inr True)
                              else (s2, Inr False))))"

definition processFrame :: "bool \<Rightarrow> byte list \<Rightarrow> media \<Rightarrow> media \<times> outcome" where
  "processFrame k raw s = (perform (DecoderDecode k raw) s, Returned)"

definition wsBinHandler :: "platform \<Rightarrow> byte list \<Rightarrow> media \<Rightarrow> media \<times> outcome" where
  "wsBinHandler p data s =
     (case take 2 data of
        [] \<Rightarrow> (s, Returned)
      | h0 # rest \<Rightarrow>
          if h0 = 255 then (s\<lparr>missed_heartbeats := 0\<rparr>, Returned)
          else if h0 = 1
          then (let k = (case rest of [] \<Rightarrow> False | h1 # _ \<Rightarrow> h1 \<noteq> 0)
                in case ensureDecoder p k s of
                     (s1, Inl x) \<Rightarrow> (s1, Raised x)
                   | (s1, Inr True) \<Rightarrow> processFrame k (drop 2 data) s1
                   | (s1, Inr False) \<Rightarrow> (s1, Returned))
          else (s, Returned))"

text \<open>
  A message of the socket: text that does not parse, a parsed event with its type and its
  payload when it has one, or bytes.
\<close>

datatype ws_message = Malformed | Event string "video_formats option" | Binary "byte list"

definition onmessage :: "platform \<Rightarrow> ws_message \<Rightarrow> media \<Rightarrow> media \<times> outcome" where
  "onmessage p m s =
     (case (case m of
              Malformed \<Rightarrow> (s, Raised SyntaxError)
            | Event ev_type ev \<Rightarrow> wsJsonHandler p ev_type ev s
            | Binary data \<Rightarrow> wsBinHandler p data s) of
        (s1, Returned) \<Rightarrow> (s1, Returned)
      | (s1, Raised x) \<Rightarrow> wsErrorHandler p (error_message x) s1)"

definition renderFrame :: "platform \<Rightarrow> video_frame \<Rightarrow> media \<Rightarrow> media" where
  "renderFrame p f s =
     (case frame s of
        None \<Rightarrow> perform RequestAnimationFrame (s\<lparr>frame := Some f\<rparr>)
      | Some _ \<Rightarrow> closeFrame p f s)"

text \<open>
  \<^verbatim>\<open>__drawPendingFrame\<close>. Whether \<^verbatim>\<open>drawImage\<close> returns is given by the
  caller; rotations are written in degrees.
\<close>

definition drawImage :: "bool \<Rightarrow> video_frame \<Rightarrow> media \<Rightarrow> media \<times> outcome" where
  "drawImage ok f s = (if ok then (perform (CtxDrawImage f) s, Returned) else (s, Raised DrawError))"

definition display_size :: "int \<Rightarrow> video_frame \<Rightarrow> nat \<times> nat" where
  "display_size orientation f =
     (if orientation = 90 \<or> orientation = 270 then (displayHeight f, displayWidth f)
      else (displayWidth f, displayHeight f))"

definition transform :: "int \<Rightarrow> nat \<Rightarrow> nat \<Rightarrow> media \<Rightarrow> media" where
  "transform orientation width height s =
     (if orientation = 90 then perform (CtxRotate (- 90)) (perform (CtxTranslate 0 height) s)
      else if orientation = 180 then perform (CtxRotate (- 180)) (perform (CtxTranslate width height) s)
      else if orientation = 270 then perform (CtxRotate 90) (perform (CtxTranslate width 0) s)
      else s)"

definition drawPendingFrame :: "platform \<Rightarrow> bool \<Rightarrow> media \<Rightarrow> media \<times> outcome" where
  "drawPendingFrame p ok s =
     (case frame s of
        None \<Rightarrow> (s, Returned)
      | Some f \<Rightarrow>
          (let (width, height) = display_size (orient s) f;
               s1 = (if canvas_width s \<noteq> width \<or> canvas_height s \<noteq> height
                     then perform Organize (s\<lparr>canvas_width := width, canvas_height := height\<rparr>)
                     else s);
               (s2, r) = (if orient s = 0 then drawImage ok f s1
                          else (let (s', r') = drawImage ok f
                                                 (transform (orient s) width height (perform CtxSave s1))
                                in (perform CtxRestore s', r')));
               s3 = (case r of Returned \<Rightarrow> s2\<lparr>fps_accum := fps_accum s2 + 1\<rparr> | Raised _ \<Rightarrow> s2)
           in ((closeFrame p f s3)\<lparr>frame := None\<rparr>, r)))"

section \<open>Runs of the direct H.264 streamer\<close>

text \<open>
  The interval calls \<^verbatim>\<open>__ping\<close> only while it is set; \<open>heartbeat p n\<close> is n
  heartbeat periods with no message received in between.
\<close>

fun heartbeat :: "platform \<Rightarrow> nat \<Rightarrow> media \<Rightarrow> media" where
  "heartbeat p 0 s = s"
| "heartbeat p (Suc n) s = heartbeat p n (if ping_timer s then fst (ping p s) else s)"

text \<open>
  Everything that can happen to a streamer: the two public methods, the events of the
  socket, the two timers, the decoder handing over a frame or failing, and the display
  refresh (with whether the drawing returns). A decoder hands over frames only while it is
  configured.
\<close>

datatype event =
    EnsureStream "snapshot option"
  | StopStream
  | SocketOpen
  | SocketError string
  | SocketClose
  | SocketMessage ws_message
  | HeartbeatTick
  | ReconnectTimeout
  | DecoderOutput video_frame
  | DecoderFailure
  | AnimationFrame bool

fun step :: "platform \<Rightarrow> event \<Rightarrow> media \<Rightarrow> media" where
  "step p (EnsureStream st) s = media_ensureStream st s"
| "step p StopStream s = fst (media_stopStream p s)"
| "step p SocketOpen s = wsOpenHandler s"
| "step p (SocketError ev) s = fst (wsErrorHandler p ev s)"
| "step p SocketClose s = fst (wsCloseHandler p s)"
| "step p (SocketMessage m) s = fst (onmessage p m s)"
| "step p HeartbeatTick s = (if ping_timer s then fst (ping p s) else s)"
| "step p ReconnectTimeout s = ensureMedia True s"
| "step p (DecoderOutput f) s =
     (if map_option dstate (decoder s) = Some Configured then renderFrame p f s else s)"
| "step p DecoderFailure s =
     (case decoder s of None \<Rightarrow> s | Some d \<Rightarrow> s\<lparr>decoder := Some (d\<lparr>dstate := Closed\<rparr>)\<rparr>)"
| "step p (AnimationFrame ok) s = fst (drawPendingFrame p ok s)"

definition run :: "platform \<Rightarrow> event list \<Rightarrow> media \<Rightarrow> media" where
  "run p evs s = foldl (\<lambda>s' ev. step p ev s') s evs"

section \<open>Vocabulary of the properties\<close>

text \<open>The effects performed between two states of one run, and the delays of the timeouts among them.\<close>

definition since :: "media \<Rightarrow> media \<Rightarrow> effect list" where
  "since s s' = drop (length (trace s)) (trace s')"

definition timeouts :: "effect list \<Rightarrow> nat list" where
  "timeouts xs = concat (map (\<lambda>x. case x of SetTimeout d \<Rightarrow> [d] | _ \<Rightarrow> []) xs)"

definition sockets_opened :: "effect list \<Rightarrow> nat" where
  "sockets_opened xs = count_list xs NewWebSocket"

text \<open>The teardown of the decoder returns, that is, its \<^verbatim>\<open>close()\<close> does not raise.\<close>

definition teardown_returns :: "platform \<Rightarrow> media \<Rightarrow> bool" where
  "teardown_returns p s = (snd (closeDecoder p s) = Returned)"

text \<open>The variables of a streamer without the record of its effects.\<close>

definition variables :: "media \<Rightarrow> media" where
  "variables s = s\<lparr>trace := []\<rparr>"

definition stop_twice :: "penv \<Rightarrow> mjpeg \<Rightarrow> error + mjpeg" where
  "stop_twice e s = (case mjpeg_stopStream e s of Inl x \<Rightarrow> Inl x | Inr s1 \<Rightarrow> mjpeg_stopStream e s1)"

text \<open>
  The decoder hands frames to \<^verbatim>\<open>__renderFrame\<close>, so a frame in the slot belongs to a
  decoder the streamer still holds.
\<close>

definition slot_owned :: "media \<Rightarrow> bool" where
  "slot_owned s = (frame s \<noteq> None \<longrightarrow> decoder s \<noteq> None)"

section \<open>Sample inputs\<close>

definition chrome :: penv where
  "chrome = \<lparr>ROOT_PREFIX = ''/'', makeRandomId = (\<lambda>n. ''K'' @ digits n),
      encodeURIComponent = (\<lambda>k. k), is_safari = False, is_ios = False, is_chrome = True,
      is_blink = True, href = (\<lambda>u. ''https://pikvm'' @ u)\<rparr>"

text \<open>
  A polling streamer that was handed a snapshot listing client 42 before the cookie could
  be read, and so started its timer; the cookie has arrived since.
\<close>

definition polling_waiting :: mjpeg where
  "polling_waiting =
     \<lparr>key = ''K0'', id' = [], fps = Number (- 1),
      state = Some \<lparr>online = True, clients_stat = [''42'' \<mapsto> 30]\<rparr>,
      timer = True, timer_retries = 10, stream_client = Some ''K0/42'',
      src = ''https://pikvm/streamer/stream?key=K0&advance_headers=1'', random_ids = 1,
      effects = []\<rparr>"

text \<open>A polling streamer whose client id is known and that is not polling.\<close>

definition polling_resolved :: mjpeg where
  "polling_resolved =
     \<lparr>key = ''K0'', id' = ''42'', fps = Number 25,
      state = Some \<lparr>online = True, clients_stat = Map.empty\<rparr>,
      timer = False, timer_retries = 0, stream_client = Some ''K0/42'',
      src = ''https://pikvm/streamer/stream?key=K0&advance_headers=1'', random_ids = 1,
      effects = []\<rparr>"

definition chromium :: platform where
  "chromium = \<lparr>is_firefox = False, has_VideoDecoder = True, is_https = True,
      close_closed_raises = True, configure_accepts = (\<lambda>c. True)\<rparr>"

definition firefox :: platform where
  "firefox = \<lparr>is_firefox = True, has_VideoDecoder = True, is_https = True,
      close_closed_raises = True, configure_accepts = (\<lambda>c. True)\<rparr>"

definition frame1 :: video_frame where
  "frame1 = \<lparr>frame_id = 1, displayWidth = 1920, displayHeight = 1080\<rparr>"

definition frame2 :: video_frame where
  "frame2 = \<lparr>frame_id = 2, displayWidth = 1920, displayHeight = 1080\<rparr>"

text \<open>A connected streamer that decodes H.264 and has nothing waiting to be drawn.\<close>

definition streaming :: media where
  "streaming =
     \<lparr>stop = False, ensuring = True, ws = True, ping_timer = True, missed_heartbeats = 0,
      codec = ''avc1.42E01F'',
      decoder = Some \<lparr>dstate = Configured, configured_with = ''avc1.42E01F''\<rparr>,
      frame = None, canvas_width = 640, canvas_height = 480, orient = 0,
      state' = Some \<lparr>online = True, clients_stat = Map.empty\<rparr>, fps_accum = 0, trace = []\<rparr>"

text \<open>
  A session from the construction of the streamer to its first decoded frame: the page
  asks for the stream, the socket opens, the server announces H.264, a key frame arrives and
  the decoder hands over the picture.
\<close>

definition session :: "event list" where
  "session =
     [EnsureStream (Some \<lparr>online = True, clients_stat = Map.empty\<rparr>), SocketOpen,
      SocketMessage (Event ''media'' (Some (Video (Some ''42E01F'')))), SocketMessage (Binary [1, 1, 0]),
      DecoderOutput frame1]"

text \<open>
  The connection is lost, the retry opens a new one, and a key frame is the first message
  on it.
\<close>

definition reconnect :: "event list" where
  "reconnect = [SocketClose, ReconnectTimeout, SocketOpen, SocketMessage (Binary [1, 1, 0])]"

text \<open>
  The same session with the picture drawn, after which the decoder closes itself on a
  decode error: the state of a streamer whose \<^verbatim>\<open>__decoder\<close> is in the state
  \<^verbatim>\<open>"closed"\<close>.
\<close>

definition decode_failure :: "event list" where
  "decode_failure = session @ [AnimationFrame True, DecoderFailure]"

definition decoder_failed :: media where
  "decoder_failed = run chromium decode_failure (MediaStreamer 0 640 480)"

section \<open>Properties of the MJPEG streamer\<close>

lemma js_legnth [simp]: "js_gt (str_get s ''legnth'') n = False"
  by (simp add: str_get_def)

lemma findId_resolved [simp]: "id' s \<noteq> [] \<Longrightarrow> findId s = s"
  by (simp add: findId_def split: option.splits)

lemma findId_fields [simp]:
  "timer (findId s) = timer s" "timer_retries (findId s) = timer_retries s"
  "key (findId s) = key s" "fps (findId s) = fps s" "state (findId s) = state s"
  "src (findId s) = src s" "random_ids (findId s) = random_ids s" "effects (findId s) = effects s"
  "stream_client (findId s) = stream_client s"
  by (simp_all add: findId_def split: option.splits)

text \<open>
  A client id that is only a name every object inherits counts as listed: with the cookie
  K0/constructor \<^verbatim>\<open>ensureStream\<close> activates and reports undefined fps.
\<close>

lemma inherited_name_is_found:
  "mjpeg_ensureStream chrome (state polling_waiting)
     (polling_waiting\<lparr>stream_client := Some ''K0/constructor''\<rparr>) =
   Inr (polling_waiting\<lparr>stream_client := Some ''K0/constructor'', id' := ''constructor'',
          fps := Undefined, timer := False, timer_retries := 0,
          effects := [SetActive, SetInfo True True ''undefined fps dynamic'', ClearInterval,
                      Organize]\<rparr>)"
  by (simp add: polling_waiting_def findId_def mjpeg_ensureStream_def setStreamActive_def
      stopChecking_def emit_def Let_def js_in_def get_fps_def show_js_def object_prototype_def)

text \<open>
  The first branch of \<^verbatim>\<open>__checkStream\<close> is never taken, whatever the snapshot holds:
  the tick either waits or restarts the stream.
\<close>

lemma checkStream_eq:
  "checkStream e s =
     Inr (if id' (findId s) \<noteq> [] \<and> 0 \<le> timer_retries s
          then (findId s)\<lparr>timer_retries := timer_retries s - 1\<rparr>
          else refresh e (findId s))"
  by (simp add: checkStream_def Let_def split: option.splits)

lemma refresh_fields:
  "timer (refresh e s) = False"
  "timer_retries (refresh e s) = 0"
  "key (refresh e s) = makeRandomId e (random_ids s)"
  "random_ids (refresh e s) = Suc (random_ids s)"
  "id' (refresh e s) = []"
  "fps (refresh e s) = Number (- 1)"
  "state (refresh e s) = None"
  "src (refresh e s) = href e (stream_path e (makeRandomId e (random_ids s)))"
  "stream_client (refresh e s) = stream_client s"
  "effects (refresh e s) =
     effects s @ (if js_ge (fps s) 0 then [SetInactive, SetInfo False False []] else [])
       @ (if timer s then [ClearInterval] else [])
       @ [SetSrc (stream_path e (makeRandomId e (random_ids s)))]"
  by (simp_all add: refresh_def set_src_def emit_def stopChecking_def setStreamInactive_def
        new_key_def Let_def)

lemma tick_wait:
  "timer s \<Longrightarrow> id' s \<noteq> [] \<Longrightarrow> 0 \<le> timer_retries s \<Longrightarrow>
   tick e s = Inr (s\<lparr>timer_retries := timer_retries s - 1\<rparr>)"
  by (simp add: tick_def checkStream_eq)

lemma tick_fail:
  "timer s \<Longrightarrow> id' s \<noteq> [] \<Longrightarrow> timer_retries s < 0 \<Longrightarrow> tick e s = Inr (refresh e s)"
  by (simp add: tick_def checkStream_eq)

lemma ticks_idle:
  "\<not> timer s \<Longrightarrow> ticks e cs s = Inr (s\<lparr>stream_client := last (stream_client s # cs)\<rparr>)"
  by (induction cs arbitrary: s) (simp_all add: tick_def)

lemma ticks_wait:
  "timer s \<Longrightarrow> id' s \<noteq> [] \<Longrightarrow> int (length cs) \<le> timer_retries s + 1 \<Longrightarrow>
   ticks e cs s =
     Inr (s\<lparr>timer_retries := timer_retries s - int (length cs),
            stream_client := last (stream_client s # cs)\<rparr>)"
proof (induction cs arbitrary: s)
  case Nil
  then show ?case by simp
next
  case (Cons c cs)
  let ?s1 = "s\<lparr>stream_client := c\<rparr>"
  let ?s2 = "?s1\<lparr>timer_retries := timer_retries ?s1 - 1\<rparr>"
  from Cons.prems have t: "tick e ?s1 = Inr ?s2"
    by (intro tick_wait) simp_all
  from Cons.prems have "ticks e cs ?s2 =
      Inr (?s2\<lparr>timer_retries := timer_retries ?s2 - int (length cs),
                 stream_client := last (stream_client ?s2 # cs)\<rparr>)"
    by (intro Cons.IH) simp_all
  with t show ?case by simp
qed

lemma ticks_append:
  "ticks e (as @ bs) s = (case ticks e as s of Inl x \<Rightarrow> Inl x | Inr s' \<Rightarrow> ticks e bs s')"
  by (induction as arbitrary: s) (simp_all split: sum.splits)

text \<open>
  With a known client id and a budget of 10, the twelfth tick is the one that restarts the
  stream, and no later tick does anything.
\<close>

lemma ticks_exhaust:
  assumes "timer s" "id' s \<noteq> []" "timer_retries s = 10" "12 \<le> length cs"
  shows "ticks e cs s = Inr ((refresh e s)\<lparr>stream_client := last cs\<rparr>)"
proof -
  define as where "as = take 11 cs"
  define c where "c = cs ! 11"
  define bs where "bs = drop 12 cs"
  have "cs = take 11 cs @ cs ! 11 # drop (Suc 11) cs"
    using assms(4) by (intro id_take_nth_drop) simp
  then have cs: "cs = as @ c # bs"
    by (simp add: as_def c_def bs_def)
  have la: "length as = 11"
    using assms(4) by (simp add: as_def)
  define s1 where "s1 = s\<lparr>timer_retries := - 1, stream_client := last (stream_client s # as)\<rparr>"
  define s2 where "s2 = s1\<lparr>stream_client := c\<rparr>"
  have 1: "ticks e as s = Inr s1"
    using ticks_wait [of s as e] assms la by (simp add: s1_def)
  have 2: "tick e s2 = Inr (refresh e s2)"
    using assms by (intro tick_fail) (simp_all add: s1_def s2_def)
  have 3: "ticks e bs (refresh e s2) = Inr ((refresh e s2)\<lparr>stream_client := last (c # bs)\<rparr>)"
    using ticks_idle [of "refresh e s2" e bs] by (simp add: refresh_fields s2_def)
  have 4: "(refresh e s2)\<lparr>stream_client := last (c # bs)\<rparr> = (refresh e s)\<lparr>stream_client := last cs\<rparr>"
    using cs assms(3) by (simp add: refresh_def set_src_def emit_def stopChecking_def
        setStreamInactive_def new_key_def Let_def s1_def s2_def)
  have "ticks e (as @ c # bs) s = ticks e (c # bs) s1"
    by (simp add: ticks_append 1)
  also have "\<dots> = ticks e bs (refresh e s2)"
    using 2 by (simp add: s2_def)
  also note 3
  also note 4
  finally show ?thesis
    using cs by simp
qed

text \<open>
  C4. With session key K, a cookie K/42 and a snapshot whose statistics list client 42, one
  poll tick should make the streamer active and stop the timer. The tick does not do so.
  On the sample input (key K0, cookie K0/42, client 42 listed with 30 fps, timer running
  with a budget of 10) \<^verbatim>\<open>__checkStream\<close> resolves the id and then only takes one from
  the budget: the timer keeps running, fps stays at -1 and no callback is invoked. The
  test of its first branch reads \<^verbatim>\<open>__id.legnth\<close>, which no string has. On the same
  input \<^verbatim>\<open>ensureStream\<close>, whose test reads \<^verbatim>\<open>__id.length\<close>, does activate.
\<close>

theorem C4_tick_does_not_activate:
  "checkStream chrome polling_waiting = Inr (polling_waiting\<lparr>id' := ''42'', timer_retries := 9\<rparr>)
   \<and> mjpeg_ensureStream chrome (state polling_waiting) polling_waiting =
       Inr (polling_waiting\<lparr>id' := ''42'', fps := Number 30, timer := False, timer_retries := 0,
              effects := [SetActive, SetInfo True True (show_int 30 @ '' fps dynamic''),
                          ClearInterval, Organize]\<rparr>)"
  by (simp add: checkStream_eq polling_waiting_def findId_def mjpeg_ensureStream_def
      setStreamActive_def stopChecking_def emit_def Let_def js_in_def get_fps_def show_js_def)

text \<open>
  C5. With a known client id the budget is set to 10 when polling starts and each tick
  takes one from it and does nothing else, whatever the cookie and the snapshot hold: after
  n ticks, n up to 11, the timer still runs with budget 10 - n, and the key, the image
  source and the callbacks are untouched. The budget counts as exhausted once it is below
  zero, which the twelfth tick finds: it resets the streamer (no id, fps -1, no snapshot),
  draws a new key, requests the stream once with the encoded new key, and clears the timer,
  so that no later tick requests anything.
\<close>

theorem C5_retry_budget:
  assumes "id' s \<noteq> []" and "\<not> timer s"
  shows "timer (ensureChecking s) \<and> timer_retries (ensureChecking s) = 10 \<and>
     (length cs \<le> 11 \<longrightarrow>
        ticks e cs (ensureChecking s) =
          Inr ((ensureChecking s)\<lparr>timer_retries := 10 - int (length cs),
                 stream_client := last (stream_client s # cs)\<rparr>)) \<and>
     (12 \<le> length cs \<longrightarrow>
        (\<exists>s'. ticks e cs (ensureChecking s) = Inr s' \<and> \<not> timer s' \<and>
           key s' = makeRandomId e (random_ids s) \<and> random_ids s' = Suc (random_ids s) \<and>
           id' s' = [] \<and> fps s' = Number (- 1) \<and> state s' = None \<and>
           src s' = href e (stream_path e (key s')) \<and>
           effects s' = effects s @ [SetInterval 100]
             @ (if js_ge (fps s) 0 then [SetInactive, SetInfo False False []] else [])
             @ [ClearInterval, SetSrc (stream_path e (key s'))]))"
proof -
  let ?s0 = "ensureChecking s"
  have s0: "timer ?s0" "timer_retries ?s0 = 10" "id' ?s0 \<noteq> []" "fps ?s0 = fps s"
    "random_ids ?s0 = random_ids s" "effects ?s0 = effects s @ [SetInterval 100]"
    "stream_client ?s0 = stream_client s"
    using assms by (simp_all add: ensureChecking_def emit_def)
  have short: "ticks e cs ?s0 =
      Inr (?s0\<lparr>timer_retries := 10 - int (length cs),
             stream_client := last (stream_client s # cs)\<rparr>)" if "length cs \<le> 11"
    using ticks_wait [of ?s0 cs e] s0 that by simp
  have long: "ticks e cs ?s0 = Inr ((refresh e ?s0)\<lparr>stream_client := last cs\<rparr>)"
    if "12 \<le> length cs"
    using ticks_exhaust [of ?s0 cs e] s0 that by simp
  show ?thesis
    using s0(1,2) short long by (simp add: refresh_fields s0)
qed

theorem C5_retry_budget_witness:
  "ticks chrome [None, None, None] (ensureChecking polling_resolved) =
     Inr ((ensureChecking polling_resolved)\<lparr>timer_retries := 7, stream_client := None\<rparr>)
   \<and> (\<exists>s'. ticks chrome (replicate 12 None) (ensureChecking polling_resolved) = Inr s' \<and>
         \<not> timer s' \<and> key s' = ''K'' @ digits 1 \<and>
         effects s' = [SetInterval 100, SetInactive, SetInfo False False [], ClearInterval,
                       SetSrc (''/streamer/stream?key=K'' @ digits 1 @ ''&advance_headers=1'')])"
proof -
  have h: "id' polling_resolved \<noteq> []" "\<not> timer polling_resolved"
    by (simp_all add: polling_resolved_def)
  have f: "fps polling_resolved = Number 25" "random_ids polling_resolved = 1"
    "effects polling_resolved = []" "stream_client polling_resolved = Some ''K0/42''"
    by (simp_all add: polling_resolved_def)
  show ?thesis
    using C5_retry_budget [OF h, of "[None, None, None]" chrome]
      C5_retry_budget [OF h, of "replicate 12 None" chrome]
    by (auto simp: f chrome_def stream_path_def)
qed

text \<open>
  C10. On a poll tick that leaves the client id unresolved (the id is empty and the cookie
  gives none), the streamer at once resets itself, draws a new key, requests the stream with
  it and clears the timer, whatever is left of the budget. The budget only delays this
  once the id is known: then a tick with a budget of zero or more takes one from the budget
  and does nothing else.
\<close>

theorem C10_unresolved_id_fails_at_once:
  "(id' (findId s) = [] \<longrightarrow>
      (\<exists>s'. checkStream e s = Inr s' \<and> \<not> timer s' \<and> timer_retries s' = 0 \<and>
         key s' = makeRandomId e (random_ids s) \<and> id' s' = [] \<and> fps s' = Number (- 1) \<and>
         state s' = None \<and> src s' = href e (stream_path e (key s')) \<and>
         effects s' = effects s
           @ (if js_ge (fps s) 0 then [SetInactive, SetInfo False False []] else [])
           @ (if timer s then [ClearInterval] else [])
           @ [SetSrc (stream_path e (key s'))])) \<and>
   (id' (findId s) \<noteq> [] \<and> 0 \<le> timer_retries s \<longrightarrow>
      checkStream e s = Inr ((findId s)\<lparr>timer_retries := timer_retries s - 1\<rparr>))"
  by (simp add: checkStream_eq refresh_fields)

theorem C10_unresolved_id_fails_at_once_witness:
  "id' (findId (polling_waiting\<lparr>stream_client := None\<rparr>)) = [] \<and>
   timer_retries (polling_waiting\<lparr>stream_client := None\<rparr>) = 10 \<and>
   (\<exists>s'. checkStream chrome (polling_waiting\<lparr>stream_client := None\<rparr>) = Inr s' \<and> \<not> timer s' \<and>
      key s' = ''K'' @ digits 1 \<and>
      effects s' = [ClearInterval,
                    SetSrc (''/streamer/stream?key=K'' @ digits 1 @ ''&advance_headers=1'')]) \<and>
   id' (findId polling_waiting) = ''42'' \<and>
   checkStream chrome polling_waiting = Inr (polling_waiting\<lparr>id' := ''42'', timer_retries := 9\<rparr>)"
proof -
  have h: "id' (findId (polling_waiting\<lparr>stream_client := None\<rparr>)) = []"
    by (simp add: polling_waiting_def findId_def)
  have g: "id' (findId polling_waiting) = ''42''" "findId polling_waiting = polling_waiting\<lparr>id' := ''42''\<rparr>"
    by (simp_all add: polling_waiting_def findId_def)
  show ?thesis
    using C10_unresolved_id_fails_at_once [of "polling_waiting\<lparr>stream_client := None\<rparr>" chrome]
      C10_unresolved_id_fails_at_once [of polling_waiting chrome] h g
    by (auto simp: polling_waiting_def chrome_def stream_path_def)
qed

section \<open>Properties of the direct H.264 streamer\<close>

subsection \<open>Effects and teardown\<close>

lemma timeouts_simps [simp]:
  "timeouts [] = []"
  "timeouts (xs @ ys) = timeouts xs @ timeouts ys"
  "timeouts (SetTimeout d # xs) = d # timeouts xs"
  by (simp_all add: timeouts_def)

lemma timeouts_other [simp]:
  "(\<And>d. x \<noteq> SetTimeout d) \<Longrightarrow> timeouts (x # xs) = timeouts xs"
  by (cases x) (auto simp: timeouts_def)

lemma since_append: "trace s' = trace s @ xs \<Longrightarrow> since s s' = xs"
  by (simp add: since_def)

lemma closeDecoder_trace:
  "trace (fst (closeDecoder p s)) = trace s @
     (case decoder s of
        None \<Rightarrow> []
      | Some d \<Rightarrow> DecoderClose #
          (case frame s of None \<Rightarrow> [] | Some f \<Rightarrow> if is_firefox p then [] else [FrameClose f]))"
  by (simp add: closeDecoder_def closeFrame_def perform_def Let_def split: option.splits)

lemma closeDecoder_fields [simp]:
  "decoder (fst (closeDecoder p s)) = None"
  "frame (fst (closeDecoder p s)) = (if decoder s = None then frame s else None)"
  "codec (fst (closeDecoder p s)) = (if decoder s = None then codec s else [])"
  "stop (fst (closeDecoder p s)) = stop s"
  "ensuring (fst (closeDecoder p s)) = ensuring s"
  "ws (fst (closeDecoder p s)) = ws s"
  "ping_timer (fst (closeDecoder p s)) = ping_timer s"
  "missed_heartbeats (fst (closeDecoder p s)) = missed_heartbeats s"
  "fps_accum (fst (closeDecoder p s)) = fps_accum s"
  "canvas_width (fst (closeDecoder p s)) = canvas_width s"
  "canvas_height (fst (closeDecoder p s)) = canvas_height s"
  "orient (fst (closeDecoder p s)) = orient s"
  "state' (fst (closeDecoder p s)) = state' s"
  by (simp_all add: closeDecoder_def closeFrame_def perform_def Let_def split: option.splits)

lemma and_then_Returned [simp]: "and_then (s, Returned) f = f s"
  by (simp add: and_then_def)

lemma and_then_Raised [simp]: "and_then (s, Raised x) f = (s, Raised x)"
  by (simp add: and_then_def)

lemma and_then_fst: "snd r = Returned \<Longrightarrow> and_then r f = f (fst r)"
  by (cases r) (auto simp: and_then_def)

lemma closeDecoder_snd:
  "snd (closeDecoder p s) = (case decoder s of None \<Rightarrow> Returned | Some d \<Rightarrow> decoder_close p d)"
  by (simp add: closeDecoder_def Let_def split: option.splits)

lemma teardown_returns_cong:
  "decoder s' = decoder s \<Longrightarrow> teardown_returns p s' = teardown_returns p s"
  by (simp add: teardown_returns_def closeDecoder_snd)

lemma teardown_returns_None [simp]: "decoder s = None \<Longrightarrow> teardown_returns p s"
  by (simp add: teardown_returns_def closeDecoder_snd)

lemma wsCloseHandler_returns:
  assumes "teardown_returns p s"
  shows "snd (wsCloseHandler p s) = Returned"
    and "ws (fst (wsCloseHandler p s)) = False"
    and "ping_timer (fst (wsCloseHandler p s)) = False"
    and "missed_heartbeats (fst (wsCloseHandler p s)) = 0"
    and "fps_accum (fst (wsCloseHandler p s)) = 0"
    and "decoder (fst (wsCloseHandler p s)) = None"
    and "frame (fst (wsCloseHandler p s)) = (if decoder s = None then frame s else None)"
    and "codec (fst (wsCloseHandler p s)) = (if decoder s = None then codec s else [])"
    and "stop (fst (wsCloseHandler p s)) = stop s"
    and "ensuring (fst (wsCloseHandler p s)) = ensuring s"
    and "canvas_width (fst (wsCloseHandler p s)) = canvas_width s"
    and "canvas_height (fst (wsCloseHandler p s)) = canvas_height s"
    and "orient (fst (wsCloseHandler p s)) = orient s"
    and "state' (fst (wsCloseHandler p s)) = state' s"
    and "trace (fst (wsCloseHandler p s)) = trace s @ (if ping_timer s then [ClearInterval] else [])
           @ (case decoder s of
                None \<Rightarrow> []
              | Some d \<Rightarrow> DecoderClose #
                  (case frame s of None \<Rightarrow> [] | Some f \<Rightarrow> if is_firefox p then [] else [FrameClose f]))
           @ (if stop s then [] else [SetTimeout 1000])"
proof -
  define s1 where "s1 = (if ping_timer s then (perform ClearInterval s)\<lparr>ping_timer := False\<rparr> else s)"
  have d: "decoder s1 = decoder s" "frame s1 = frame s"
    by (simp_all add: s1_def perform_def)
  have r: "snd (closeDecoder p s1) = Returned"
    using assms teardown_returns_cong [OF d(1), of p] by (simp add: teardown_returns_def)
  have eq: "wsCloseHandler p s =
      (let s3 = (fst (closeDecoder p s1))\<lparr>missed_heartbeats := 0, fps_accum := 0, ws := False\<rparr>
       in (if \<not> stop s3 then perform (SetTimeout 1000) s3 else s3, Returned))"
    by (simp add: wsCloseHandler_def s1_def [symmetric] and_then_fst [OF r] Let_def)
  show "snd (wsCloseHandler p s) = Returned"
    and "ws (fst (wsCloseHandler p s)) = False"
    and "ping_timer (fst (wsCloseHandler p s)) = False"
    and "missed_heartbeats (fst (wsCloseHandler p s)) = 0"
    and "fps_accum (fst (wsCloseHandler p s)) = 0"
    and "decoder (fst (wsCloseHandler p s)) = None"
    and "frame (fst (wsCloseHandler p s)) = (if decoder s = None then frame s else None)"
    and "codec (fst (wsCloseHandler p s)) = (if decoder s = None then codec s else [])"
    and "stop (fst (wsCloseHandler p s)) = stop s"
    and "ensuring (fst (wsCloseHandler p s)) = ensuring s"
    and "canvas_width (fst (wsCloseHandler p s)) = canvas_width s"
    and "canvas_height (fst (wsCloseHandler p s)) = canvas_height s"
    and "orient (fst (wsCloseHandler p s)) = orient s"
    and "state' (fst (wsCloseHandler p s)) = state' s"
    by (simp_all add: eq Let_def perform_def d) (simp_all add: s1_def perform_def)
  show "trace (fst (wsCloseHandler p s)) = trace s @ (if ping_timer s then [ClearInterval] else [])
           @ (case decoder s of
                None \<Rightarrow> []
              | Some d \<Rightarrow> DecoderClose #
                  (case frame s of None \<Rightarrow> [] | Some f \<Rightarrow> if is_firefox p then [] else [FrameClose f]))
           @ (if stop s then [] else [SetTimeout 1000])"
    by (simp add: eq Let_def perform_def closeDecoder_trace d cong: option.case_cong)
      (simp add: s1_def perform_def)
qed

lemma wsForceClose_returns:
  assumes "teardown_returns p s"
  shows "snd (wsForceClose p s) = Returned"
    and "ws (fst (wsForceClose p s)) = False"
    and "ping_timer (fst (wsForceClose p s)) = False"
    and "missed_heartbeats (fst (wsForceClose p s)) = 0"
    and "fps_accum (fst (wsForceClose p s)) = 0"
    and "decoder (fst (wsForceClose p s)) = None"
    and "frame (fst (wsForceClose p s)) = (if decoder s = None then frame s else None)"
    and "codec (fst (wsForceClose p s)) = (if decoder s = None then codec s else [])"
    and "stop (fst (wsForceClose p s)) = stop s"
    and "ensuring (fst (wsForceClose p s)) = ensuring s"
    and "canvas_width (fst (wsForceClose p s)) = canvas_width s"
    and "canvas_height (fst (wsForceClose p s)) = canvas_height s"
    and "orient (fst (wsForceClose p s)) = orient s"
    and "state' (fst (wsForceClose p s)) = state' s"
    and "trace (fst (wsForceClose p s)) = trace s @ (if ws s then [WsClose] else [])
           @ (if ping_timer s then [ClearInterval] else [])
           @ (case decoder s of
                None \<Rightarrow> []
              | Some d \<Rightarrow> DecoderClose #
                  (case frame s of None \<Rightarrow> [] | Some f \<Rightarrow> if is_firefox p then [] else [FrameClose f]))
           @ (if stop s then [] else [SetTimeout 1000]) @ [SetInactive]"
proof -
  define s1 where "s1 = (if ws s then perform WsClose s else s)"
  have t: "teardown_returns p s1"
    using assms teardown_returns_cong [of s1 s p] by (simp add: s1_def perform_def)
  note c = wsCloseHandler_returns [OF t]
  have eq: "wsForceClose p s = (perform SetInactive (fst (wsCloseHandler p s1)), Returned)"
    by (simp add: wsForceClose_def s1_def [symmetric] and_then_fst [OF c(1)])
  have s1: "decoder s1 = decoder s" "frame s1 = frame s" "codec s1 = codec s" "stop s1 = stop s"
    "ensuring s1 = ensuring s" "canvas_width s1 = canvas_width s" "canvas_height s1 = canvas_height s"
    "orient s1 = orient s" "state' s1 = state' s" "ping_timer s1 = ping_timer s"
    "trace s1 = trace s @ (if ws s then [WsClose] else [])"
    by (simp_all add: s1_def perform_def)
  show "snd (wsForceClose p s) = Returned"
    and "ws (fst (wsForceClose p s)) = False"
    and "ping_timer (fst (wsForceClose p s)) = False"
    and "missed_heartbeats (fst (wsForceClose p s)) = 0"
    and "fps_accum (fst (wsForceClose p s)) = 0"
    and "decoder (fst (wsForceClose p s)) = None"
    and "frame (fst (wsForceClose p s)) = (if decoder s = None then frame s else None)"
    and "codec (fst (wsForceClose p s)) = (if decoder s = None then codec s else [])"
    and "stop (fst (wsForceClose p s)) = stop s"
    and "ensuring (fst (wsForceClose p s)) = ensuring s"
    and "canvas_width (fst (wsForceClose p s)) = canvas_width s"
    and "canvas_height (fst (wsForceClose p s)) = canvas_height s"
    and "orient (fst (wsForceClose p s)) = orient s"
    and "state' (fst (wsForceClose p s)) = state' s"
    and "trace (fst (wsForceClose p s)) = trace s @ (if ws s then [WsClose] else [])
           @ (if ping_timer s then [ClearInterval] else [])
           @ (case decoder s of
                None \<Rightarrow> []
              | Some d \<Rightarrow> DecoderClose #
                  (case frame s of None \<Rightarrow> [] | Some f \<Rightarrow> if is_firefox p then [] else [FrameClose f]))
           @ (if stop s then [] else [SetTimeout 1000]) @ [SetInactive]"
    by (simp_all add: eq perform_def c s1 cong: option.case_cong)
qed

lemma timeouts_teardown [simp]:
  "timeouts (case d of None \<Rightarrow> []
      | Some d \<Rightarrow> DecoderClose #
          (case f of None \<Rightarrow> [] | Some f \<Rightarrow> if b then [] else [FrameClose f])) = []"
  by (simp split: option.splits)

lemma ping_threshold:
  assumes "4 \<le> missed_heartbeats s" "teardown_returns p s"
  shows "snd (ping p s) = Returned"
    "\<not> ws (fst (ping p s))" "\<not> ping_timer (fst (ping p s))" "decoder (fst (ping p s)) = None"
    "frame (fst (ping p s)) = (if decoder s = None then frame s else None)"
    "missed_heartbeats (fst (ping p s)) = 0"
    "timeouts (since s (fst (ping p s))) = (if stop s then [] else [1000])"
    "ws s \<Longrightarrow> WsClose \<in> set (since s (fst (ping p s)))"
proof -
  define s1 where "s1 = perform (SetInfo False False ''Too many missed heartbeats'')
      (s\<lparr>missed_heartbeats := missed_heartbeats s + 1\<rparr>)"
  have eq: "ping p s = wsForceClose p s1"
    using assms(1) by (simp add: ping_def Let_def wsErrorHandler_def error_message_def s1_def)
  have t: "teardown_returns p s1"
    using assms(2) teardown_returns_cong [of s1 s p] by (simp add: s1_def perform_def)
  note f = wsForceClose_returns [OF t]
  have s1: "decoder s1 = decoder s" "frame s1 = frame s" "stop s1 = stop s" "ws s1 = ws s"
    "ping_timer s1 = ping_timer s"
    "trace s1 = trace s @ [SetInfo False False ''Too many missed heartbeats'']"
    by (simp_all add: s1_def perform_def)
  show "snd (ping p s) = Returned"
    "\<not> ws (fst (ping p s))" "\<not> ping_timer (fst (ping p s))" "decoder (fst (ping p s)) = None"
    "frame (fst (ping p s)) = (if decoder s = None then frame s else None)"
    "missed_heartbeats (fst (ping p s)) = 0"
    "timeouts (since s (fst (ping p s))) = (if stop s then [] else [1000])"
    "ws s \<Longrightarrow> WsClose \<in> set (since s (fst (ping p s)))"
    by (simp_all add: eq f s1 since_def)
qed



lemma ping_below:
  assumes "missed_heartbeats s < 4" "ws s"
  shows "snd (ping p s) = Returned"
    and "missed_heartbeats (fst (ping p s)) = missed_heartbeats s + 1"
    and "ws (fst (ping p s))" and "ping_timer (fst (ping p s)) = ping_timer s"
    and "decoder (fst (ping p s)) = decoder s" and "stop (fst (ping p s)) = stop s"
    and "frame (fst (ping p s)) = frame s"
    and "\<exists>xs. trace (fst (ping p s)) = trace s @ WsSendBytes [0] # xs \<and> timeouts xs = []
           \<and> WsClose \<notin> set xs"
  using assms
  by (auto simp: ping_def Let_def ws_send_def ping_info_def perform_def split: option.splits)

lemma heartbeat_add: "heartbeat p (m + n) s = heartbeat p n (heartbeat p m s)"
  by (induction m arbitrary: s) simp_all

lemma heartbeat_idle: "\<not> ping_timer s \<Longrightarrow> heartbeat p n s = s"
  by (induction n) simp_all

lemma heartbeat_below:
  "ws s \<Longrightarrow> ping_timer s \<Longrightarrow> missed_heartbeats s + int n < 5 \<Longrightarrow>
   missed_heartbeats (heartbeat p n s) = missed_heartbeats s + int n \<and>
   ws (heartbeat p n s) \<and> ping_timer (heartbeat p n s) \<and>
   decoder (heartbeat p n s) = decoder s \<and> stop (heartbeat p n s) = stop s \<and>
   (\<exists>xs. trace (heartbeat p n s) = trace s @ xs \<and> timeouts xs = [] \<and> WsClose \<notin> set xs)"
proof (induction n arbitrary: s)
  case 0
  then show ?case by simp
next
  case (Suc n)
  let ?s1 = "fst (ping p s)"
  from Suc.prems have b: "missed_heartbeats s < 4" by simp
  note pb = ping_below [OF b Suc.prems(1), of p]
  from pb(8) obtain xs where xs: "trace ?s1 = trace s @ WsSendBytes [0] # xs" "timeouts xs = []"
      "WsClose \<notin> set xs"
    by blast
  have "missed_heartbeats (heartbeat p n ?s1) = missed_heartbeats ?s1 + int n \<and>
     ws (heartbeat p n ?s1) \<and> ping_timer (heartbeat p n ?s1) \<and>
     decoder (heartbeat p n ?s1) = decoder ?s1 \<and> stop (heartbeat p n ?s1) = stop ?s1 \<and>
     (\<exists>xs. trace (heartbeat p n ?s1) = trace ?s1 @ xs \<and> timeouts xs = [] \<and> WsClose \<notin> set xs)"
    using Suc.prems pb by (intro Suc.IH) simp_all
  then show ?case
    using Suc.prems(2) pb(2,5,6) xs by auto
qed

lemma heartbeat_five:
  assumes "ws s" "ping_timer s" "missed_heartbeats s = 0" "teardown_returns p s" "5 \<le> n"
  shows "\<not> ws (heartbeat p n s)" "\<not> ping_timer (heartbeat p n s)"
    "timeouts (since s (heartbeat p n s)) = (if stop s then [] else [1000])"
    "count_list (since s (heartbeat p n s)) WsClose = 1"
proof -
  define s4 where "s4 = heartbeat p 4 s"
  have h4: "missed_heartbeats s4 = 4" "ws s4" "ping_timer s4" "decoder s4 = decoder s"
    "stop s4 = stop s"
    and "\<exists>xs. trace s4 = trace s @ xs \<and> timeouts xs = [] \<and> WsClose \<notin> set xs"
    using heartbeat_below [of s 4 p] assms(1-3) by (simp_all add: s4_def)
  then obtain xs where xs: "trace s4 = trace s @ xs" "timeouts xs = []" "WsClose \<notin> set xs"
    by blast
  have t: "teardown_returns p s4"
    using assms(4) teardown_returns_cong [OF h4(4), of p] by simp
  define s1 where "s1 = perform (SetInfo False False ''Too many missed heartbeats'')
      (s4\<lparr>missed_heartbeats := missed_heartbeats s4 + 1\<rparr>)"
  have eq: "ping p s4 = wsForceClose p s1"
    using h4(1) by (simp add: ping_def Let_def wsErrorHandler_def error_message_def s1_def)
  have t1: "teardown_returns p s1"
    using t teardown_returns_cong [of s1 s4 p] by (simp add: s1_def perform_def)
  note f = wsForceClose_returns [OF t1]
  have s1: "stop s1 = stop s" "ws s1" "ping_timer s1"
    "trace s1 = trace s @ xs @ [SetInfo False False ''Too many missed heartbeats'']"
    using h4 xs by (simp_all add: s1_def perform_def)
  define m where "m = n - 5"
  have n: "n = 4 + (1 + m)"
    using assms(5) by (simp add: m_def)
  have hb: "heartbeat p n s = fst (ping p s4)"
    unfolding n heartbeat_add s4_def [symmetric]
    using h4(3) f(3) by (simp add: heartbeat_idle eq)
  show "\<not> ws (heartbeat p n s)" "\<not> ping_timer (heartbeat p n s)"
    "timeouts (since s (heartbeat p n s)) = (if stop s then [] else [1000])"
    "count_list (since s (heartbeat p n s)) WsClose = 1"
    using xs(2,3) by (simp_all add: hb eq f s1 since_def split: option.splits)
qed

subsection \<open>The frame slot and the drawing\<close>

lemma renderFrame_first:
  "frame s = None \<Longrightarrow> renderFrame p f s = perform RequestAnimationFrame (s\<lparr>frame := Some f\<rparr>)"
  by (simp add: renderFrame_def)

lemma renderFrame_busy:
  "frame s = Some g \<Longrightarrow> renderFrame p f s = closeFrame p f s"
  by (simp add: renderFrame_def)

lemma renderFrames_busy:
  "frame s = Some g \<Longrightarrow>
   foldl (\<lambda>s' f. renderFrame p f s') s fs =
     s\<lparr>trace := trace s @ (if is_firefox p then [] else map FrameClose fs)\<rparr>"
proof (induction fs arbitrary: s)
  case Nil
  then show ?case by simp
next
  case (Cons f fs)
  have "frame (renderFrame p f s) = Some g"
    using Cons.prems by (simp add: renderFrame_def closeFrame_def perform_def)
  then show ?case
    using Cons.IH [of "renderFrame p f s"] Cons.prems
    by (simp add: renderFrame_def closeFrame_def perform_def)
qed

lemma two_frames:
  "frame s = None \<Longrightarrow>
   renderFrame p f2 (renderFrame p f1 s) =
     s\<lparr>frame := Some f1,
       trace := trace s @ RequestAnimationFrame # (if is_firefox p then [] else [FrameClose f2])\<rparr>"
  by (simp add: renderFrame_def closeFrame_def perform_def)

lemma draw_fields:
  assumes "frame s = Some f"
  shows "frame (fst (drawPendingFrame p ok s)) = None"
    and "snd (drawPendingFrame p ok s) = (if ok then Returned else Raised DrawError)"
    and "canvas_width (fst (drawPendingFrame p ok s)) = fst (display_size (orient s) f)"
    and "canvas_height (fst (drawPendingFrame p ok s)) = snd (display_size (orient s) f)"
    and "fps_accum (fst (drawPendingFrame p ok s)) = (if ok then fps_accum s + 1 else fps_accum s)"
    and "decoder (fst (drawPendingFrame p ok s)) = decoder s"
  using assms
  by (auto simp: drawPendingFrame_def Let_def drawImage_def transform_def perform_def
      closeFrame_def split: prod.splits)

lemma draw_trace:
  assumes "frame s = Some f"
  shows "trace (fst (drawPendingFrame p ok s)) = trace s
      @ (if (canvas_width s, canvas_height s) \<noteq> display_size (orient s) f then [Organize] else [])
      @ (if orient s = 0 then (if ok then [CtxDrawImage f] else [])
         else CtxSave #
           (if orient s = 90 then [CtxTranslate 0 (snd (display_size (orient s) f)), CtxRotate (- 90)]
            else if orient s = 180
              then [CtxTranslate (fst (display_size (orient s) f)) (snd (display_size (orient s) f)),
                    CtxRotate (- 180)]
            else if orient s = 270 then [CtxTranslate (fst (display_size (orient s) f)) 0, CtxRotate 90]
            else [])
           @ (if ok then [CtxDrawImage f] else []) @ [CtxRestore])
      @ (if is_firefox p then [] else [FrameClose f])"
  using assms
  by (auto simp: drawPendingFrame_def Let_def drawImage_def transform_def perform_def
      closeFrame_def split: prod.splits)

subsection \<open>What holds whether or not the teardown raises\<close>

lemma and_then_cases: "and_then r f = (if snd r = Returned then f (fst r) else r)"
  by (cases r; cases "snd r") (auto simp: and_then_def)

lemma closeDecoder_None [simp]: "decoder s = None \<Longrightarrow> closeDecoder p s = (s, Returned)"
  by (simp add: closeDecoder_def)


lemma wsCloseHandler_always:
  "decoder (fst (wsCloseHandler p s)) = None"
  "frame (fst (wsCloseHandler p s)) = (if decoder s = None then frame s else None)"
  "codec (fst (wsCloseHandler p s)) = (if decoder s = None then codec s else [])"
  "stop (fst (wsCloseHandler p s)) = stop s"
  "ping_timer (fst (wsCloseHandler p s)) = False"
  by (auto simp: wsCloseHandler_def and_then_cases Let_def perform_def)

lemma wsForceClose_always:
  "decoder (fst (wsForceClose p s)) = None"
  "frame (fst (wsForceClose p s)) = (if decoder s = None then frame s else None)"
  "codec (fst (wsForceClose p s)) = (if decoder s = None then codec s else [])"
  "stop (fst (wsForceClose p s)) = stop s"
  "ping_timer (fst (wsForceClose p s)) = False"
  by (auto simp: wsForceClose_def and_then_cases Let_def perform_def wsCloseHandler_always)

lemma wsErrorHandler_always:
  "decoder (fst (wsErrorHandler p ev s)) = None"
  "frame (fst (wsErrorHandler p ev s)) = (if decoder s = None then frame s else None)"
  "codec (fst (wsErrorHandler p ev s)) = (if decoder s = None then codec s else [])"
  "stop (fst (wsErrorHandler p ev s)) = stop s"
  "ping_timer (fst (wsErrorHandler p ev s)) = False"
  by (auto simp: wsErrorHandler_def wsForceClose_always perform_def)

lemma media_stopStream_always:
  "decoder (fst (media_stopStream p s)) = None"
  "frame (fst (media_stopStream p s)) = (if decoder s = None then frame s else None)"
  "codec (fst (media_stopStream p s)) = (if decoder s = None then codec s else [])"
  "stop (fst (media_stopStream p s)) = True"
  "ping_timer (fst (media_stopStream p s)) = False"
  by (auto simp: media_stopStream_def and_then_cases wsForceClose_always perform_def)

lemma slot_owned_closeDecoder: "slot_owned s \<Longrightarrow> slot_owned (fst (closeDecoder p s))"
  by (auto simp: slot_owned_def)

lemma slot_owned_ping: "slot_owned s \<Longrightarrow> slot_owned (fst (ping p s))"
  by (auto simp: slot_owned_def ping_def Let_def and_then_cases ws_send_def ping_info_def
      perform_def wsErrorHandler_always split: option.splits)

lemma slot_owned_setupCodec: "slot_owned s \<Longrightarrow> slot_owned (fst (setupCodec p h s))"
  by (auto simp: slot_owned_def setupCodec_def and_then_cases ws_send_def perform_def
      split: option.splits video_formats.splits)

lemma replace_decoder_frame:
  "slot_owned s \<Longrightarrow> slot_owned (fst (replace_decoder p s))"
  by (auto simp: slot_owned_def replace_decoder_def and_then_cases ws_send_def perform_def Let_def)

lemma slot_owned_ensureDecoder: "slot_owned s \<Longrightarrow> slot_owned (fst (ensureDecoder p k s))"
proof -
  assume a: "slot_owned s"
  obtain s1 r where r: "replace_decoder p s = (s1, r)" by (cases "replace_decoder p s")
  with replace_decoder_frame [OF a, of p] have s1: "slot_owned s1" by simp
  show ?thesis
    using a s1 r
    by (auto simp: ensureDecoder_def decoder_configure_def perform_def Let_def slot_owned_def
        split: outcome.splits option.splits)
qed

lemma slot_owned_wsBinHandler: "slot_owned s \<Longrightarrow> slot_owned (fst (wsBinHandler p d s))"
proof -
  assume a: "slot_owned s"
  have e: "\<And>k. slot_owned (fst (ensureDecoder p k s))"
    by (rule slot_owned_ensureDecoder [OF a])
  show ?thesis
    using a e
    by (auto simp: wsBinHandler_def processFrame_def perform_def slot_owned_def Let_def
        case_prod_unfold split: list.splits sum.splits bool.splits)
qed

lemma slot_owned_onmessage: "slot_owned s \<Longrightarrow> slot_owned (fst (onmessage p m s))"
proof -
  assume a: "slot_owned s"
  have "slot_owned (fst (case m of
              Malformed \<Rightarrow> (s, Raised SyntaxError)
            | Event ev_type ev \<Rightarrow> wsJsonHandler p ev_type ev s
            | Binary data \<Rightarrow> wsBinHandler p data s))"
    using a by (simp add: wsJsonHandler_def slot_owned_setupCodec slot_owned_wsBinHandler
        split: ws_message.splits option.splits)
  then show ?thesis
    by (auto simp: onmessage_def slot_owned_def wsErrorHandler_always
        split: prod.splits outcome.splits)
qed

lemma slot_owned_step: "slot_owned s \<Longrightarrow> slot_owned (step p ev s)"
proof (cases ev)
  case (SocketMessage m)
  assume "slot_owned s"
  then show ?thesis using SocketMessage by (simp add: slot_owned_onmessage)
next
  case HeartbeatTick
  assume "slot_owned s"
  then show ?thesis using HeartbeatTick by (simp add: slot_owned_ping)
next
  case (AnimationFrame ok)
  assume "slot_owned s"
  then show ?thesis using AnimationFrame
    by (cases "frame s") (simp_all add: slot_owned_def draw_fields, simp add: drawPendingFrame_def)
qed (auto simp: slot_owned_def media_ensureStream_def ensureMedia_def perform_def wsOpenHandler_def
      wsErrorHandler_always wsCloseHandler_always media_stopStream_always renderFrame_def
      closeFrame_def split: option.splits)

lemma slot_owned_run: "slot_owned s \<Longrightarrow> slot_owned (run p evs s)"
  unfolding run_def by (induction evs arbitrary: s) (simp_all add: slot_owned_step)

lemma slot_owned_initial: "slot_owned (MediaStreamer orientation w h)"
  by (simp add: slot_owned_def MediaStreamer_def)

subsection \<open>Decoder set-up and the public methods\<close>

lemma ensureDecoder_no_codec: "codec s = [] \<Longrightarrow> ensureDecoder p k s = (s, Inr False)"
  by (simp add: ensureDecoder_def)

lemma ensureDecoder_fresh:
  assumes "codec s \<noteq> []" "ws s" "configure_accepts p (codec s)" "decoder s = None"
  shows "ensureDecoder p True s =
     (s\<lparr>decoder := Some \<lparr>dstate = Configured, configured_with = codec s\<rparr>,
        trace := trace s @ [NewVideoDecoder, WsSendBytes [0], DecoderConfigure (codec s), SetActive]\<rparr>,
      Inr True)"
  using assms
  by (simp add: ensureDecoder_def replace_decoder_def ws_send_def perform_def new_decoder_def
      decoder_configure_def Let_def)

lemma ensureDecoder_closed:
  assumes "codec s \<noteq> []" "ws s" "configure_accepts p (codec s)"
    "decoder s = Some d" "dstate d = Closed" "teardown_returns p s"
  shows "ensureDecoder p True s =
     (s\<lparr>decoder := Some \<lparr>dstate = Configured, configured_with = codec s\<rparr>, frame := None,
        trace := trace s @ DecoderClose #
          (case frame s of None \<Rightarrow> [] | Some f \<Rightarrow> if is_firefox p then [] else [FrameClose f])
          @ [NewVideoDecoder, WsSendBytes [0], DecoderConfigure (codec s), SetActive]\<rparr>,
      Inr True)"
proof -
  have r: "decoder_close p d = Returned"
    using assms(4,6) by (simp add: teardown_returns_def closeDecoder_snd)
  show ?thesis
    using assms(1-5) r
    by (simp add: ensureDecoder_def replace_decoder_def ws_send_def perform_def new_decoder_def
        decoder_configure_def Let_def closeDecoder_def closeFrame_def split: option.splits)
qed

lemma media_stopStream_returns:
  assumes "teardown_returns p s"
  shows "snd (media_stopStream p s) = Returned"
    and "stop (fst (media_stopStream p s))"
    and "\<not> ensuring (fst (media_stopStream p s))"
    and "\<not> ws (fst (media_stopStream p s))"
    and "\<not> ping_timer (fst (media_stopStream p s))"
    and "missed_heartbeats (fst (media_stopStream p s)) = 0"
    and "fps_accum (fst (media_stopStream p s)) = 0"
    and "decoder (fst (media_stopStream p s)) = None"
    and "frame (fst (media_stopStream p s)) = (if decoder s = None then frame s else None)"
    and "trace (fst (media_stopStream p s)) = trace s @ (if ws s then [WsClose] else [])
           @ (if ping_timer s then [ClearInterval] else [])
           @ (case decoder s of
                None \<Rightarrow> []
              | Some d \<Rightarrow> DecoderClose #
                  (case frame s of None \<Rightarrow> [] | Some f \<Rightarrow> if is_firefox p then [] else [FrameClose f]))
           @ [SetInactive, SetInfo False False []]"
proof -
  define s0 where "s0 = s\<lparr>stop := True, ensuring := False\<rparr>"
  have t: "teardown_returns p s0"
    using assms teardown_returns_cong [of s0 s p] by (simp add: s0_def)
  note f = wsForceClose_returns [OF t]
  have eq: "media_stopStream p s = (perform (SetInfo False False []) (fst (wsForceClose p s0)), Returned)"
    by (simp add: media_stopStream_def s0_def [symmetric] and_then_fst [OF f(1)])
  have s0: "decoder s0 = decoder s" "frame s0 = frame s" "stop s0" "\<not> ensuring s0" "ws s0 = ws s"
    "ping_timer s0 = ping_timer s" "trace s0 = trace s"
    by (simp_all add: s0_def)
  show "snd (media_stopStream p s) = Returned"
    and "stop (fst (media_stopStream p s))"
    and "\<not> ensuring (fst (media_stopStream p s))"
    and "\<not> ws (fst (media_stopStream p s))"
    and "\<not> ping_timer (fst (media_stopStream p s))"
    and "missed_heartbeats (fst (media_stopStream p s)) = 0"
    and "fps_accum (fst (media_stopStream p s)) = 0"
    and "decoder (fst (media_stopStream p s)) = None"
    and "frame (fst (media_stopStream p s)) = (if decoder s = None then frame s else None)"
    and "trace (fst (media_stopStream p s)) = trace s @ (if ws s then [WsClose] else [])
           @ (if ping_timer s then [ClearInterval] else [])
           @ (case decoder s of
                None \<Rightarrow> []
              | Some d \<Rightarrow> DecoderClose #
                  (case frame s of None \<Rightarrow> [] | Some f \<Rightarrow> if is_firefox p then [] else [FrameClose f]))
           @ [SetInactive, SetInfo False False []]"
    by (simp_all add: eq perform_def f s0 cong: option.case_cong)
qed

lemma media_stopStream_stopped:
  assumes "stop s" "\<not> ensuring s" "\<not> ws s" "\<not> ping_timer s" "missed_heartbeats s = 0"
    "fps_accum s = 0" "decoder s = None"
  shows "media_stopStream p s = (s\<lparr>trace := trace s @ [SetInactive, SetInfo False False []]\<rparr>, Returned)"
  using assms
  by (cases s)
    (simp add: media_stopStream_def wsForceClose_def wsCloseHandler_def perform_def Let_def)

lemma ensureMedia_stopped: "stop s \<Longrightarrow> ensureMedia internal s = s"
  by (simp add: ensureMedia_def)

lemma media_ensureStream_again:
  "media_ensureStream st (media_ensureStream st s) = media_ensureStream st s"
  by (simp add: media_ensureStream_def ensureMedia_def perform_def)

lemma media_ensureStream_many:
  "(media_ensureStream st ^^ Suc n) s = media_ensureStream st s"
  by (induction n) (simp_all add: media_ensureStream_again)

lemma mjpeg_stopStream_once:
  "\<exists>s1. mjpeg_stopStream e s = Inr s1 \<and> \<not> timer s1 \<and> timer_retries s1 = 0 \<and> id' s1 = [] \<and>
     fps s1 = Number (- 1) \<and> state s1 = None \<and> key s1 = makeRandomId e (random_ids s) \<and>
     src s1 = (if suffix (blank e) (src s) then src s else href e (blank e))"
  by (simp add: mjpeg_stopStream_def mjpeg_ensureStream_def setStreamInactive_def stopChecking_def
      new_key_def emit_def set_src_def Let_def)

lemma mjpeg_stopStream_idle:
  assumes "\<not> timer s" "timer_retries s = 0" "id' s = []" "fps s = Number (- 1)" "state s = None"
  shows "mjpeg_stopStream e s =
     Inr (s\<lparr>key := makeRandomId e (random_ids s), random_ids := Suc (random_ids s),
            src := (if suffix (blank e) (src s) then src s else href e (blank e)),
            effects := effects s @ (if suffix (blank e) (src s) then [] else [SetSrc (blank e)])\<rparr>)"
  using assms
  by (cases s)
    (simp add: mjpeg_stopStream_def mjpeg_ensureStream_def setStreamInactive_def stopChecking_def
      new_key_def emit_def set_src_def Let_def)

lemma pong_resets:
  "onmessage p (Binary (255 # rest)) s = (s\<lparr>missed_heartbeats := 0\<rparr>, Returned)"
  by (simp add: onmessage_def wsBinHandler_def)

lemma count_FrameClose_transform [simp]:
  "count_list (trace (transform a w h s)) (FrameClose f) = count_list (trace s) (FrameClose f)"
  by (simp add: transform_def perform_def)

lemma session_state:
  "run chromium session (MediaStreamer 0 640 480) =
     streaming\<lparr>frame := Some frame1,
       trace := [SetInactive, SetInfo False False [], NewWebSocket, SetInterval 1000,
         WsSendStart, NewVideoDecoder, WsSendBytes [0], DecoderConfigure ''avc1.42E01F'',
         SetActive, DecoderDecode True [0], RequestAnimationFrame]\<rparr>"
  by (simp add: run_def session_def MediaStreamer_def media_ensureStream_def ensureMedia_def
      perform_def wsOpenHandler_def onmessage_def wsJsonHandler_def setupCodec_def and_then_def
      closeDecoder_def ws_send_def wsBinHandler_def ensureDecoder_def replace_decoder_def
      new_decoder_def decoder_configure_def chromium_def Let_def processFrame_def renderFrame_def
      streaming_def)

text \<open>
  A media event without \<^verbatim>\<open>video\<close> tears the decoder down, raises, and so closes
  the connection and schedules the retry.
\<close>

lemma media_event_without_video:
  "onmessage chromium (Event ''media'' (Some NoVideo)) streaming =
     (streaming\<lparr>ws := False, ping_timer := False, codec := [], decoder := None,
        trace := [DecoderClose, SetInfo False False ''TypeError'', WsClose, ClearInterval,
                  SetTimeout 1000, SetInactive]\<rparr>, Returned)"
  by (simp add: onmessage_def wsJsonHandler_def setupCodec_def closeDecoder_def decoder_close_def
      and_then_def wsErrorHandler_def wsForceClose_def wsCloseHandler_def perform_def
      error_message_def streaming_def chromium_def Let_def)

subsection \<open>Heartbeat and stop while the teardown returns\<close>

text \<open>
  As long as the teardown returns, that is, the decoder's \<^verbatim>\<open>close()\<close> does not
  raise, the heartbeat works as follows. A binary message whose first byte is 0xFF sets the
  count of missed heartbeats to 0 and changes nothing else. A heartbeat tick first adds one
  to the count. Below the threshold (a count of at most 3 before the tick, a socket held)
  the count is one higher after the tick and no reconnection is scheduled. On the tick that
  brings the count to 5 the socket is closed, the heartbeat timer cleared, the decoder
  dropped and the count reset, and the timeouts the tick schedules are exactly one of
  1000 ms, or none when the streamer is stopped. So from an open connection with a count of
  0, ticks 1 to 4 without a pong leave the connection open and the fifth closes it; and
  however many ticks are due after that, one close and one timeout is all that was done.
\<close>

lemma heartbeat_when_teardown_returns:
  "onmessage p (Binary (255 # rest)) s = (s\<lparr>missed_heartbeats := 0\<rparr>, Returned) \<and>
   (missed_heartbeats s < 4 \<and> ws s \<longrightarrow>
      missed_heartbeats (fst (ping p s)) = missed_heartbeats s + 1 \<and> ws (fst (ping p s)) \<and>
      timeouts (since s (fst (ping p s))) = []) \<and>
   (4 \<le> missed_heartbeats s \<and> teardown_returns p s \<longrightarrow>
      \<not> ws (fst (ping p s)) \<and> \<not> ping_timer (fst (ping p s)) \<and>
      decoder (fst (ping p s)) = None \<and> missed_heartbeats (fst (ping p s)) = 0 \<and>
      (ws s \<longrightarrow> WsClose \<in> set (since s (fst (ping p s)))) \<and>
      timeouts (since s (fst (ping p s))) = (if stop s then [] else [1000])) \<and>
   (ws s \<and> ping_timer s \<and> missed_heartbeats s = 0 \<and> teardown_returns p s \<longrightarrow>
      (n < 5 \<longrightarrow> missed_heartbeats (heartbeat p n s) = int n \<and> ws (heartbeat p n s) \<and>
         timeouts (since s (heartbeat p n s)) = []) \<and>
      (5 \<le> n \<longrightarrow> \<not> ws (heartbeat p n s) \<and> \<not> ping_timer (heartbeat p n s) \<and>
         count_list (since s (heartbeat p n s)) WsClose = 1 \<and>
         timeouts (since s (heartbeat p n s)) = (if stop s then [] else [1000])))"
proof (intro conjI impI)
  show "onmessage p (Binary (255 # rest)) s = (s\<lparr>missed_heartbeats := 0\<rparr>, Returned)"
    by (rule pong_resets)
next
  assume a: "missed_heartbeats s < 4 \<and> ws s"
  then have b: "missed_heartbeats s < 4" "ws s" by simp_all
  note pb = ping_below [OF b, of p]
  show "missed_heartbeats (fst (ping p s)) = missed_heartbeats s + 1" by (rule pb(2))
  show "ws (fst (ping p s))" by (rule pb(3))
  from pb(8) show "timeouts (since s (fst (ping p s))) = []"
    by (auto simp: since_def)
next
  assume a: "4 \<le> missed_heartbeats s \<and> teardown_returns p s"
  then have b: "4 \<le> missed_heartbeats s" "teardown_returns p s" by simp_all
  note pt = ping_threshold [OF b]
  show "\<not> ws (fst (ping p s))" by (rule pt(2))
  show "\<not> ping_timer (fst (ping p s))" by (rule pt(3))
  show "decoder (fst (ping p s)) = None" by (rule pt(4))
  show "missed_heartbeats (fst (ping p s)) = 0" by (rule pt(6))
  show "timeouts (since s (fst (ping p s))) = (if stop s then [] else [1000])" by (rule pt(7))
  show "WsClose \<in> set (since s (fst (ping p s)))" if "ws s" using that by (rule pt(8))
next
  assume a: "ws s \<and> ping_timer s \<and> missed_heartbeats s = 0 \<and> teardown_returns p s"
  then have b: "ws s" "ping_timer s" "missed_heartbeats s = 0" "teardown_returns p s" by simp_all
  {
    assume n: "n < 5"
    from heartbeat_below [of s n p] b n
    show "missed_heartbeats (heartbeat p n s) = int n" "ws (heartbeat p n s)"
      "timeouts (since s (heartbeat p n s)) = []"
      by (auto simp: since_def)
  }
  {
    assume n: "5 \<le> n"
    note h = heartbeat_five [OF b n]
    show "\<not> ws (heartbeat p n s)" by (rule h(1))
    show "\<not> ping_timer (heartbeat p n s)" by (rule h(2))
    show "count_list (since s (heartbeat p n s)) WsClose = 1" by (rule h(4))
    show "timeouts (since s (heartbeat p n s)) = (if stop s then [] else [1000])" by (rule h(3))
  }
qed


lemma heartbeat_when_teardown_returns_example:
  "missed_heartbeats (fst (ping chromium streaming)) = 1 \<and>
   teardown_returns chromium (streaming\<lparr>missed_heartbeats := 4\<rparr>) \<and>
   \<not> ws (fst (ping chromium (streaming\<lparr>missed_heartbeats := 4\<rparr>))) \<and>
   timeouts (since (streaming\<lparr>missed_heartbeats := 4\<rparr>)
     (fst (ping chromium (streaming\<lparr>missed_heartbeats := 4\<rparr>)))) = [1000] \<and>
   missed_heartbeats (heartbeat chromium 4 streaming) = 4 \<and>
   \<not> ws (heartbeat chromium 7 streaming) \<and>
   timeouts (since streaming (heartbeat chromium 7 streaming)) = [1000]"
proof -
  have t: "teardown_returns chromium (streaming\<lparr>missed_heartbeats := 4\<rparr>)"
    "teardown_returns chromium streaming"
    by (simp_all add: teardown_returns_def closeDecoder_snd streaming_def decoder_close_def)
  have f: "ws streaming" "ping_timer streaming" "missed_heartbeats streaming = 0"
    "\<not> stop streaming"
    by (simp_all add: streaming_def)
  show ?thesis
    using heartbeat_when_teardown_returns [of chromium "[]" streaming 4]
      heartbeat_when_teardown_returns [of chromium "[]" "streaming\<lparr>missed_heartbeats := 4\<rparr>" 0]
      heartbeat_when_teardown_returns [of chromium "[]" streaming 7] t f
    by simp
qed

text \<open>
  As long as the teardown returns, \<^verbatim>\<open>stopStream\<close> leaves the streamer without
  resources. Direct H.264 streamer, in every state it can reach from its construction: the
  stop flag is set and the ensuring flag cleared, there is no socket, no decoder, no pending
  frame and no heartbeat timer, no timeout is scheduled, a retry timeout that is still
  waiting does nothing when it fires, and a second call returns and changes no variable.
  MJPEG streamer, in every state: \<^verbatim>\<open>stopStream\<close> returns, there is no timer, no
  client id and no snapshot, fps is -1, and a second call changes only the key, which every
  call draws anew (and assigns the blank image again when the element does not report it).
\<close>

lemma stopStream_when_teardown_returns:
  "(s = run p evs (MediaStreamer orientation w h) \<and> teardown_returns p s \<longrightarrow>
      snd (media_stopStream p s) = Returned \<and>
      stop (fst (media_stopStream p s)) \<and>
      \<not> ensuring (fst (media_stopStream p s)) \<and>
      \<not> ws (fst (media_stopStream p s)) \<and>
      decoder (fst (media_stopStream p s)) = None \<and>
      frame (fst (media_stopStream p s)) = None \<and>
      \<not> ping_timer (fst (media_stopStream p s)) \<and>
      timeouts (since s (fst (media_stopStream p s))) = [] \<and>
      ensureMedia True (fst (media_stopStream p s)) = fst (media_stopStream p s) \<and>
      snd (media_stopStream p (fst (media_stopStream p s))) = Returned \<and>
      variables (fst (media_stopStream p (fst (media_stopStream p s)))) =
        variables (fst (media_stopStream p s))) \<and>
   (\<exists>t1. mjpeg_stopStream e t = Inr t1 \<and> \<not> timer t1 \<and> timer_retries t1 = 0 \<and> id' t1 = [] \<and>
      fps t1 = Number (- 1) \<and> state t1 = None \<and>
      mjpeg_stopStream e t1 =
        Inr (t1\<lparr>key := makeRandomId e (random_ids t1), random_ids := Suc (random_ids t1),
               effects := effects t1 @ (if suffix (blank e) (src t1) then [] else [SetSrc (blank e)])\<rparr>))"
proof (intro conjI impI)
  assume a: "s = run p evs (MediaStreamer orientation w h) \<and> teardown_returns p s"
  then have t: "teardown_returns p s" and r: "s = run p evs (MediaStreamer orientation w h)"
    by blast+
  have "slot_owned s"
    unfolding r by (simp add: slot_owned_run slot_owned_initial)
  then have fr: "decoder s = None \<longrightarrow> frame s = None"
    by (auto simp: slot_owned_def)
  note m = media_stopStream_returns [OF t]
  let ?s1 = "fst (media_stopStream p s)"
  have again: "media_stopStream p ?s1 =
      (?s1\<lparr>trace := trace ?s1 @ [SetInactive, SetInfo False False []]\<rparr>, Returned)"
    using m by (intro media_stopStream_stopped) simp_all
  show "snd (media_stopStream p s) = Returned" by (rule m(1))
  show "stop ?s1" by (rule m(2))
  show "\<not> ensuring ?s1" by (rule m(3))
  show "\<not> ws ?s1" by (rule m(4))
  show "decoder ?s1 = None" by (rule m(8))
  show "frame ?s1 = None" using fr by (simp add: m(9))
  show "\<not> ping_timer ?s1" by (rule m(5))
  show "timeouts (since s ?s1) = []" by (simp add: m(10) since_def)
  show "ensureMedia True ?s1 = ?s1" using m(2) by (rule ensureMedia_stopped)
  show "snd (media_stopStream p ?s1) = Returned" by (simp add: again)
  show "variables (fst (media_stopStream p ?s1)) = variables ?s1"
    by (simp add: again variables_def)
next
  from mjpeg_stopStream_once [of e t] obtain t1 where t1:
    "mjpeg_stopStream e t = Inr t1" "\<not> timer t1" "timer_retries t1 = 0" "id' t1 = []"
    "fps t1 = Number (- 1)" "state t1 = None"
    "src t1 = (if suffix (blank e) (src t) then src t else href e (blank e))"
    by blast
  have "mjpeg_stopStream e t1 =
     Inr (t1\<lparr>key := makeRandomId e (random_ids t1), random_ids := Suc (random_ids t1),
            src := (if suffix (blank e) (src t1) then src t1 else href e (blank e)),
            effects := effects t1 @ (if suffix (blank e) (src t1) then [] else [SetSrc (blank e)])\<rparr>)"
    using t1(2-6) by (rule mjpeg_stopStream_idle)
  moreover have "(if suffix (blank e) (src t1) then src t1 else href e (blank e)) = src t1"
    using t1(7) by (simp split: if_splits)
  ultimately have "mjpeg_stopStream e t1 =
     Inr (t1\<lparr>key := makeRandomId e (random_ids t1), random_ids := Suc (random_ids t1),
            effects := effects t1 @ (if suffix (blank e) (src t1) then [] else [SetSrc (blank e)])\<rparr>)"
    by simp
  with t1 show "\<exists>t1. mjpeg_stopStream e t = Inr t1 \<and> \<not> timer t1 \<and> timer_retries t1 = 0 \<and> id' t1 = [] \<and>
      fps t1 = Number (- 1) \<and> state t1 = None \<and>
      mjpeg_stopStream e t1 =
        Inr (t1\<lparr>key := makeRandomId e (random_ids t1), random_ids := Suc (random_ids t1),
               effects := effects t1 @ (if suffix (blank e) (src t1) then [] else [SetSrc (blank e)])\<rparr>)"
    by blast
qed

lemma stopStream_when_teardown_returns_example:
  "teardown_returns chromium (run chromium session (MediaStreamer 0 640 480)) \<and>
   frame (run chromium session (MediaStreamer 0 640 480)) = Some frame1 \<and>
   frame (fst (media_stopStream chromium (run chromium session (MediaStreamer 0 640 480)))) = None \<and>
   \<not> ws (fst (media_stopStream chromium (run chromium session (MediaStreamer 0 640 480)))) \<and>
   variables (fst (media_stopStream chromium
       (fst (media_stopStream chromium (run chromium session (MediaStreamer 0 640 480)))))) =
     variables (fst (media_stopStream chromium (run chromium session (MediaStreamer 0 640 480))))"
proof -
  have t: "teardown_returns chromium (run chromium session (MediaStreamer 0 640 480))"
    by (simp add: session_state teardown_returns_def closeDecoder_snd decoder_close_def
        streaming_def)
  have f: "frame (run chromium session (MediaStreamer 0 640 480)) = Some frame1"
    by (simp add: session_state)
  show ?thesis
    using stopStream_when_teardown_returns [of "run chromium session (MediaStreamer 0 640 480)" chromium session 0 640 480]
      t f by simp
qed

text \<open>
  Two calls of \<^verbatim>\<open>stopStream\<close> in a row leave the MJPEG streamer with another session
  key than one call, as every transition to inactive draws a new key.
\<close>

lemma mjpeg_stopStream_new_key:
  "\<not> isl (mjpeg_stopStream chrome polling_resolved) \<and> \<not> isl (stop_twice chrome polling_resolved) \<and>
   key (projr (stop_twice chrome polling_resolved)) \<noteq>
   key (projr (mjpeg_stopStream chrome polling_resolved))"
  by (simp add: stop_twice_def mjpeg_stopStream_def mjpeg_ensureStream_def setStreamInactive_def
      stopChecking_def new_key_def emit_def set_src_def blank_def Let_def chrome_def
      polling_resolved_def digits.simps)

subsection \<open>Heartbeat and stop with a decoder that has closed itself\<close>

text \<open>
  Where \<^verbatim>\<open>close()\<close> of a closed decoder raises, the exception passes the
  \<^verbatim>\<open>finally\<close> block of \<^verbatim>\<open>__closeDecoder\<close>, which has no \<^verbatim>\<open>catch\<close>,
  and leaves \<^verbatim>\<open>__wsCloseHandler\<close> before the socket variable is cleared, the count
  reset and the retry scheduled.
\<close>

lemma decoder_failed_state:
  "decoder_failed =
     streaming\<lparr>decoder := Some \<lparr>dstate = Closed, configured_with = ''avc1.42E01F''\<rparr>,
       canvas_width := 1920, canvas_height := 1080, fps_accum := 1,
       trace := [SetInactive, SetInfo False False [], NewWebSocket, SetInterval 1000,
         WsSendStart, NewVideoDecoder, WsSendBytes [0], DecoderConfigure ''avc1.42E01F'',
         SetActive, DecoderDecode True [0], RequestAnimationFrame, Organize,
         CtxDrawImage frame1, FrameClose frame1]\<rparr>"
proof -
  have "decoder_failed =
      step chromium DecoderFailure (step chromium (AnimationFrame True)
        (run chromium session (MediaStreamer 0 640 480)))"
    by (simp add: decoder_failed_def decode_failure_def run_def)
  then show ?thesis
    unfolding session_state
    by (simp add: drawPendingFrame_def display_size_def drawImage_def closeFrame_def
        perform_def chromium_def streaming_def frame1_def Let_def)
qed

lemma decoder_failed_fields:
  "decoder decoder_failed = Some \<lparr>dstate = Closed, configured_with = ''avc1.42E01F''\<rparr>"
  "ws decoder_failed" "ping_timer decoder_failed" "missed_heartbeats decoder_failed = 0"
  "\<not> stop decoder_failed" "frame decoder_failed = None" "ensuring decoder_failed"
  by (simp_all add: decoder_failed_state streaming_def)

lemma ping_closed_below:
  assumes "missed_heartbeats s < 4" "ws s" "decoder s = Some d" "dstate d = Closed"
  shows "ping p s =
     (s\<lparr>missed_heartbeats := missed_heartbeats s + 1, trace := trace s @ [WsSendBytes [0]]\<rparr>,
      Returned)"
  using assms by (simp add: ping_def Let_def ws_send_def ping_info_def perform_def)

lemma closeDecoder_closed_raises:
  assumes "decoder s = Some d" "dstate d = Closed" "close_closed_raises p" "frame s = None"
  shows "closeDecoder p s =
     (s\<lparr>codec := [], decoder := None, trace := trace s @ [DecoderClose]\<rparr>,
      Raised InvalidStateError)"
  using assms by (simp add: closeDecoder_def decoder_close_def perform_def Let_def)

lemma wsForceClose_closed_raises:
  assumes "decoder s = Some d" "dstate d = Closed" "close_closed_raises p" "frame s = None"
    "ws s" "ping_timer s"
  shows "wsForceClose p s =
     (s\<lparr>ping_timer := False, codec := [], decoder := None,
        trace := trace s @ [WsClose, ClearInterval, DecoderClose]\<rparr>,
      Raised InvalidStateError)"
proof -
  let ?s1 = "(perform ClearInterval (perform WsClose s))\<lparr>ping_timer := False\<rparr>"
  have "closeDecoder p ?s1 =
      (?s1\<lparr>codec := [], decoder := None, trace := trace ?s1 @ [DecoderClose]\<rparr>,
       Raised InvalidStateError)"
    using assms(1-4) by (intro closeDecoder_closed_raises) (simp_all add: perform_def)
  then show ?thesis
    using assms(5,6) by (simp add: wsForceClose_def wsCloseHandler_def Let_def perform_def)
qed

lemma ping_closed_threshold:
  assumes "missed_heartbeats s = 4" "decoder s = Some d" "dstate d = Closed"
    "close_closed_raises p" "frame s = None" "ws s" "ping_timer s"
  shows "ping p s =
     (s\<lparr>missed_heartbeats := 5, ping_timer := False, codec := [], decoder := None,
        trace := trace s @ [SetInfo False False ''Too many missed heartbeats'', WsClose,
          ClearInterval, DecoderClose]\<rparr>,
      Raised InvalidStateError)"
proof -
  let ?s1 = "perform (SetInfo False False ''Too many missed heartbeats'')
      (s\<lparr>missed_heartbeats := missed_heartbeats s + 1\<rparr>)"
  have "ping p s = wsForceClose p ?s1"
    using assms(1) by (simp add: ping_def Let_def wsErrorHandler_def error_message_def)
  also have "\<dots> = (?s1\<lparr>ping_timer := False, codec := [], decoder := None,
        trace := trace ?s1 @ [WsClose, ClearInterval, DecoderClose]\<rparr>, Raised InvalidStateError)"
    using assms(2-7) by (intro wsForceClose_closed_raises) (simp_all add: perform_def)
  finally show ?thesis
    using assms(1) by (simp add: perform_def)
qed

lemma heartbeat_closed_decoder:
  assumes "missed_heartbeats s = 0" "decoder s = Some d" "dstate d = Closed"
    "close_closed_raises p" "frame s = None" "ws s" "ping_timer s"
  shows "heartbeat p 5 s =
     s\<lparr>missed_heartbeats := 5, ping_timer := False, codec := [], decoder := None,
       trace := trace s @ [WsSendBytes [0], WsSendBytes [0], WsSendBytes [0], WsSendBytes [0],
         SetInfo False False ''Too many missed heartbeats'', WsClose, ClearInterval,
         DecoderClose]\<rparr>"
proof -
  define s1 where "s1 = s\<lparr>missed_heartbeats := 1, trace := trace s @ [WsSendBytes [0]]\<rparr>"
  define s2 where "s2 = s1\<lparr>missed_heartbeats := 2, trace := trace s1 @ [WsSendBytes [0]]\<rparr>"
  define s3 where "s3 = s2\<lparr>missed_heartbeats := 3, trace := trace s2 @ [WsSendBytes [0]]\<rparr>"
  define s4 where "s4 = s3\<lparr>missed_heartbeats := 4, trace := trace s3 @ [WsSendBytes [0]]\<rparr>"
  have 1: "ping p s = (s1, Returned)"
    using assms ping_closed_below [of s d p] by (simp add: s1_def)
  have 2: "ping p s1 = (s2, Returned)"
    using assms ping_closed_below [of s1 d p] by (simp add: s1_def s2_def)
  have 3: "ping p s2 = (s3, Returned)"
    using assms ping_closed_below [of s2 d p] by (simp add: s1_def s2_def s3_def)
  have 4: "ping p s3 = (s4, Returned)"
    using assms ping_closed_below [of s3 d p] by (simp add: s1_def s2_def s3_def s4_def)
  have 5: "ping p s4 =
     (s4\<lparr>missed_heartbeats := 5, ping_timer := False, codec := [], decoder := None,
        trace := trace s4 @ [SetInfo False False ''Too many missed heartbeats'', WsClose,
          ClearInterval, DecoderClose]\<rparr>, Raised InvalidStateError)"
    using assms by (intro ping_closed_threshold [of s4 d p]) (simp_all add: s1_def s2_def s3_def s4_def)
  have t: "ping_timer s1" "ping_timer s2" "ping_timer s3" "ping_timer s4"
    using assms(7) by (simp_all add: s1_def s2_def s3_def s4_def)
  have "heartbeat p 5 s = fst (ping p s4)"
    using assms(7) t by (simp add: eval_nat_numeral 1 2 3 4)
  then show ?thesis
    by (simp add: 5) (simp add: s1_def s2_def s3_def s4_def)
qed

lemma media_stopStream_closed_raises:
  assumes "decoder s = Some d" "dstate d = Closed" "close_closed_raises p" "frame s = None"
    "ws s" "ping_timer s"
  shows "media_stopStream p s =
     (s\<lparr>stop := True, ensuring := False, ping_timer := False, codec := [], decoder := None,
        trace := trace s @ [WsClose, ClearInterval, DecoderClose]\<rparr>,
      Raised InvalidStateError)"
proof -
  let ?s0 = "s\<lparr>stop := True, ensuring := False\<rparr>"
  have "wsForceClose p ?s0 =
     (?s0\<lparr>ping_timer := False, codec := [], decoder := None,
        trace := trace ?s0 @ [WsClose, ClearInterval, DecoderClose]\<rparr>, Raised InvalidStateError)"
    using assms by (intro wsForceClose_closed_raises) simp_all
  then show ?thesis
    by (simp add: media_stopStream_def)
qed

section \<open>The claims about the direct H.264 streamer\<close>

text \<open>
  C1. On the tick where the count of missed heartbeats reaches 5 the connection should be
  closed and, the streamer not being stopped, one reconnection scheduled after 1000 ms.
  With a decoder that has closed itself this is not what happens. In the state the sample
  session reaches when a decode error follows the first picture (socket held, heartbeat
  timer running, count 0, not stopped), five ticks without a pong send four probes and then
  report the missed heartbeats, close the socket, clear the timer and call
  \<^verbatim>\<open>close()\<close> on the decoder, which raises: no timeout is scheduled, the count stays
  at 5 and the socket variable stays set, so that a later \<^verbatim>\<open>ensureStream\<close> opens
  nothing either.
\<close>

theorem C1_heartbeat_closed_decoder:
  "map_option dstate (decoder decoder_failed) = Some Closed \<and>
   ws decoder_failed \<and> ping_timer decoder_failed \<and> missed_heartbeats decoder_failed = 0 \<and>
   \<not> stop decoder_failed \<and>
   since decoder_failed (heartbeat chromium 5 decoder_failed) =
     [WsSendBytes [0], WsSendBytes [0], WsSendBytes [0], WsSendBytes [0],
      SetInfo False False ''Too many missed heartbeats'', WsClose, ClearInterval, DecoderClose] \<and>
   timeouts (since decoder_failed (heartbeat chromium 5 decoder_failed)) = [] \<and>
   ws (heartbeat chromium 5 decoder_failed) \<and>
   missed_heartbeats (heartbeat chromium 5 decoder_failed) = 5 \<and>
   sockets_opened (since (heartbeat chromium 5 decoder_failed)
     (media_ensureStream None (heartbeat chromium 5 decoder_failed))) = 0"
proof -
  have c: "close_closed_raises chromium" by (simp add: chromium_def)
  have h: "heartbeat chromium 5 decoder_failed =
     decoder_failed\<lparr>missed_heartbeats := 5, ping_timer := False, codec := [], decoder := None,
       trace := trace decoder_failed @ [WsSendBytes [0], WsSendBytes [0], WsSendBytes [0],
         WsSendBytes [0], SetInfo False False ''Too many missed heartbeats'', WsClose,
         ClearInterval, DecoderClose]\<rparr>"
    by (rule heartbeat_closed_decoder [OF decoder_failed_fields(4,1) _ c decoder_failed_fields(6,2,3)])
      simp
  show ?thesis
    unfolding h
    by (simp add: decoder_failed_fields since_def sockets_opened_def media_ensureStream_def
        ensureMedia_def)
qed

text \<open>
  C2. The slot holds at most one decoded frame: it is one optional value. Of the frames
  handed over while the slot is empty and before the display refresh runs, the first stays
  in the slot and one refresh is requested; every later one is passed to
  \<^verbatim>\<open>__closeFrame\<close> at once and the slot keeps the first, which is the one the
  refresh then draws. \<^verbatim>\<open>__closeFrame\<close> calls \<^verbatim>\<open>close()\<close> on the frame,
  except on Firefox, where the script skips the call on purpose: there the later frames
  are dropped without an explicit close.
\<close>

theorem C2_backpressure:
  "frame s = None \<longrightarrow>
     frame (renderFrame p f1 s) = Some f1 \<and>
     frame (foldl (\<lambda>s' f. renderFrame p f s') s (f1 # fs)) = Some f1 \<and>
     since s (foldl (\<lambda>s' f. renderFrame p f s') s (f1 # fs)) =
       RequestAnimationFrame # (if is_firefox p then [] else map FrameClose fs) \<and>
     frame (renderFrame p f2 (renderFrame p f1 s)) = Some f1 \<and>
     since s (renderFrame p f2 (renderFrame p f1 s)) =
       RequestAnimationFrame # (if is_firefox p then [] else [FrameClose f2]) \<and>
     CtxDrawImage f1 \<in> set (since (renderFrame p f2 (renderFrame p f1 s))
       (fst (drawPendingFrame p True (renderFrame p f2 (renderFrame p f1 s)))))"
proof
  assume a: "frame s = None"
  let ?s2 = "renderFrame p f2 (renderFrame p f1 s)"
  have 1: "renderFrame p f1 s = perform RequestAnimationFrame (s\<lparr>frame := Some f1\<rparr>)"
    using a by (rule renderFrame_first)
  then have 2: "frame (renderFrame p f1 s) = Some f1"
    by (simp add: perform_def)
  have 3: "foldl (\<lambda>s' f. renderFrame p f s') s (f1 # fs) =
      (renderFrame p f1 s)\<lparr>trace := trace (renderFrame p f1 s)
         @ (if is_firefox p then [] else map FrameClose fs)\<rparr>"
    using renderFrames_busy [OF 2, of p fs] by simp
  have 4: "frame ?s2 = Some f1"
    by (simp add: two_frames [OF a])
  have 5: "CtxDrawImage f1 \<in> set (since ?s2 (fst (drawPendingFrame p True ?s2)))"
    by (simp add: draw_trace [OF 4] since_def)
  have "frame (renderFrame p f1 s) = Some f1 \<and>
     frame (foldl (\<lambda>s' f. renderFrame p f s') s (f1 # fs)) = Some f1 \<and>
     since s (foldl (\<lambda>s' f. renderFrame p f s') s (f1 # fs)) =
       RequestAnimationFrame # (if is_firefox p then [] else map FrameClose fs) \<and>
     frame ?s2 = Some f1 \<and>
     since s ?s2 = RequestAnimationFrame # (if is_firefox p then [] else [FrameClose f2])"
    unfolding 3 two_frames [OF a] by (simp add: 1 perform_def since_def)
  with 5 show "frame (renderFrame p f1 s) = Some f1 \<and>
     frame (foldl (\<lambda>s' f. renderFrame p f s') s (f1 # fs)) = Some f1 \<and>
     since s (foldl (\<lambda>s' f. renderFrame p f s') s (f1 # fs)) =
       RequestAnimationFrame # (if is_firefox p then [] else map FrameClose fs) \<and>
     frame ?s2 = Some f1 \<and>
     since s ?s2 = RequestAnimationFrame # (if is_firefox p then [] else [FrameClose f2]) \<and>
     CtxDrawImage f1 \<in> set (since ?s2 (fst (drawPendingFrame p True ?s2)))"
    by blast
qed

theorem C2_backpressure_witness:
  "frame (streaming\<lparr>frame := None\<rparr>) = None \<and>
   frame (renderFrame chromium frame2 (renderFrame chromium frame1 streaming)) = Some frame1 \<and>
   since streaming (renderFrame chromium frame2 (renderFrame chromium frame1 streaming)) =
     [RequestAnimationFrame, FrameClose frame2]"
proof -
  have h: "frame streaming = None" by (simp add: streaming_def)
  have p: "\<not> is_firefox chromium" by (simp add: chromium_def)
  show ?thesis
    using C2_backpressure [of streaming chromium frame1 "[]" frame2] h p by simp
qed

text \<open>
  On Firefox the second of two frames is dropped without \<^verbatim>\<open>close()\<close> being called
  on it.
\<close>

theorem C2_counterexample:
  "FrameClose frame2 \<notin> set (trace (renderFrame firefox frame2 (renderFrame firefox frame1 streaming)))"
  by (simp add: renderFrame_def closeFrame_def perform_def firefox_def streaming_def)

text \<open>
  C3. \<^verbatim>\<open>__closeDecoder\<close> clears the codec identifier whenever there is a decoder to
  close. So after the teardown made on a socket close, on a socket error or by
  \<^verbatim>\<open>stopStream\<close> the identifier is empty, and with an empty identifier
  \<^verbatim>\<open>__ensureDecoder\<close> rejects every frame, key frame or not, and leaves the streamer as
  it is, until the transport announces the formats again. The identifier outlives only the
  teardown that \<^verbatim>\<open>__ensureDecoder\<close> makes itself, which saves it before and restores it
  after: with an identifier, a socket and a codec string the decoder accepts, a key frame
  that finds no decoder, or a closed one whose \<^verbatim>\<open>close()\<close> returns, gets a new
  decoder configured with the same identifier, and no start request is sent.
\<close>

theorem C3_codec_and_teardown:
  "(decoder s \<noteq> None \<longrightarrow>
      codec (fst (closeDecoder p s)) = [] \<and>
      codec (fst (wsCloseHandler p s)) = [] \<and>
      codec (fst (wsErrorHandler p ev s)) = [] \<and>
      codec (fst (media_stopStream p s)) = []) \<and>
   (codec s = [] \<longrightarrow> ensureDecoder p k s = (s, Inr False)) \<and>
   (codec s \<noteq> [] \<and> ws s \<and> configure_accepts p (codec s) \<and>
    (decoder s = None \<or> map_option dstate (decoder s) = Some Closed \<and> teardown_returns p s) \<longrightarrow>
      snd (ensureDecoder p True s) = Inr True \<and>
      codec (fst (ensureDecoder p True s)) = codec s \<and>
      decoder (fst (ensureDecoder p True s)) =
        Some \<lparr>dstate = Configured, configured_with = codec s\<rparr> \<and>
      DecoderConfigure (codec s) \<in> set (since s (fst (ensureDecoder p True s))) \<and>
      WsSendStart \<notin> set (since s (fst (ensureDecoder p True s))))"
proof (intro conjI impI)
  assume "decoder s \<noteq> None"
  then show "codec (fst (closeDecoder p s)) = []" "codec (fst (wsCloseHandler p s)) = []"
    "codec (fst (wsErrorHandler p ev s)) = []" "codec (fst (media_stopStream p s)) = []"
    by (auto simp: wsCloseHandler_always wsErrorHandler_always media_stopStream_always)
next
  assume "codec s = []"
  then show "ensureDecoder p k s = (s, Inr False)" by (rule ensureDecoder_no_codec)
next
  assume a: "codec s \<noteq> [] \<and> ws s \<and> configure_accepts p (codec s) \<and>
    (decoder s = None \<or> map_option dstate (decoder s) = Some Closed \<and> teardown_returns p s)"
  then have b: "codec s \<noteq> []" "ws s" "configure_accepts p (codec s)" by simp_all
  from a consider "decoder s = None"
    | d where "decoder s = Some d" "dstate d = Closed" "teardown_returns p s"
    by auto
  then have "snd (ensureDecoder p True s) = Inr True \<and>
      codec (fst (ensureDecoder p True s)) = codec s \<and>
      decoder (fst (ensureDecoder p True s)) =
        Some \<lparr>dstate = Configured, configured_with = codec s\<rparr> \<and>
      DecoderConfigure (codec s) \<in> set (since s (fst (ensureDecoder p True s))) \<and>
      WsSendStart \<notin> set (since s (fst (ensureDecoder p True s)))"
  proof cases
    case 1
    show ?thesis
      by (simp add: ensureDecoder_fresh [OF b 1] since_def)
  next
    case 2
    show ?thesis
      by (simp add: ensureDecoder_closed [OF b 2] since_def split: option.splits)
  qed
  then show "snd (ensureDecoder p True s) = Inr True"
    "codec (fst (ensureDecoder p True s)) = codec s"
    "decoder (fst (ensureDecoder p True s)) = Some \<lparr>dstate = Configured, configured_with = codec s\<rparr>"
    "DecoderConfigure (codec s) \<in> set (since s (fst (ensureDecoder p True s)))"
    "WsSendStart \<notin> set (since s (fst (ensureDecoder p True s)))"
    by simp_all
qed

theorem C3_codec_and_teardown_witness:
  "decoder streaming \<noteq> None \<and> codec (fst (wsCloseHandler chromium streaming)) = [] \<and>
   ensureDecoder chromium True (fst (wsCloseHandler chromium streaming)) =
     (fst (wsCloseHandler chromium streaming), Inr False) \<and>
   decoder (fst (ensureDecoder chromium True (streaming\<lparr>decoder := None\<rparr>))) =
     Some \<lparr>dstate = Configured, configured_with = ''avc1.42E01F''\<rparr>"
proof -
  have h: "decoder streaming \<noteq> None" "codec (streaming\<lparr>decoder := None\<rparr>) = ''avc1.42E01F''"
    "ws (streaming\<lparr>decoder := None\<rparr>)" "decoder (streaming\<lparr>decoder := None\<rparr>) = None"
    "configure_accepts chromium ''avc1.42E01F''"
    by (simp_all add: streaming_def chromium_def)
  show ?thesis
    using C3_codec_and_teardown [of streaming chromium "[]" True]
      C3_codec_and_teardown [of "fst (wsCloseHandler chromium streaming)" chromium "[]" True]
      C3_codec_and_teardown [of "streaming\<lparr>decoder := None\<rparr>" chromium "[]" True] h
    by simp
qed

text \<open>
  After a lost connection and the reconnection, a key frame that arrives first finds the
  identifier empty: no decoder is created or configured.
\<close>

theorem C3_counterexample:
  "codec (run chromium reconnect streaming) = [] \<and>
   decoder (run chromium reconnect streaming) = None \<and>
   DecoderConfigure ''avc1.42E01F'' \<notin> set (trace (run chromium reconnect streaming))"
  by (simp add: run_def reconnect_def streaming_def chromium_def wsCloseHandler_def
      closeDecoder_def decoder_close_def and_then_def perform_def ensureMedia_def
      wsOpenHandler_def onmessage_def wsBinHandler_def ensureDecoder_def Let_def)

text \<open>
  C6. Every path that disposes of a frame passes it to \<^verbatim>\<open>__closeFrame\<close>. The
  drawing path clears the slot and hands over the drawn frame, also when
  \<^verbatim>\<open>drawImage\<close> raises. A frame that arrives while the slot is taken is handed over at
  once and the slot is left alone. A teardown with a decoder hands over the pending frame
  and clears the slot, also when the decoder's \<^verbatim>\<open>close()\<close> raises.
  \<^verbatim>\<open>__closeFrame\<close> calls \<^verbatim>\<open>close()\<close> on the frame, once, except on Firefox,
  where the script skips the call on purpose and no close is performed.
\<close>

theorem C6_frames_released:
  "(frame s = Some f \<longrightarrow>
      frame (fst (drawPendingFrame p ok s)) = None \<and>
      snd (drawPendingFrame p ok s) = (if ok then Returned else Raised DrawError) \<and>
      count_list (since s (fst (drawPendingFrame p ok s))) (FrameClose f) =
        (if is_firefox p then 0 else 1)) \<and>
   (frame s = Some g \<longrightarrow>
      frame (renderFrame p f s) = Some g \<and>
      since s (renderFrame p f s) = (if is_firefox p then [] else [FrameClose f])) \<and>
   (frame s = Some f \<and> decoder s \<noteq> None \<longrightarrow>
      frame (fst (closeDecoder p s)) = None \<and>
      since s (fst (closeDecoder p s)) = DecoderClose # (if is_firefox p then [] else [FrameClose f]))"
proof (intro conjI impI)
  assume a: "frame s = Some f"
  show "frame (fst (drawPendingFrame p ok s)) = None"
    "snd (drawPendingFrame p ok s) = (if ok then Returned else Raised DrawError)"
    using draw_fields [OF a] by simp_all
  show "count_list (since s (fst (drawPendingFrame p ok s))) (FrameClose f) =
        (if is_firefox p then 0 else 1)"
    by (simp add: draw_trace [OF a] since_def)
next
  assume a: "frame s = Some g"
  show "frame (renderFrame p f s) = Some g"
    "since s (renderFrame p f s) = (if is_firefox p then [] else [FrameClose f])"
    using a by (simp_all add: renderFrame_def closeFrame_def perform_def since_def)
next
  assume a: "frame s = Some f \<and> decoder s \<noteq> None"
  then show "frame (fst (closeDecoder p s)) = None"
    "since s (fst (closeDecoder p s)) = DecoderClose # (if is_firefox p then [] else [FrameClose f])"
    by (auto simp: closeDecoder_trace since_def)
qed

theorem C6_frames_released_witness:
  "frame (streaming\<lparr>frame := Some frame1\<rparr>) = Some frame1 \<and>
   snd (drawPendingFrame chromium False (streaming\<lparr>frame := Some frame1\<rparr>)) = Raised DrawError \<and>
   count_list (since (streaming\<lparr>frame := Some frame1\<rparr>)
     (fst (drawPendingFrame chromium False (streaming\<lparr>frame := Some frame1\<rparr>)))) (FrameClose frame1) = 1 \<and>
   since (streaming\<lparr>frame := Some frame1\<rparr>) (renderFrame chromium frame2 (streaming\<lparr>frame := Some frame1\<rparr>))
     = [FrameClose frame2] \<and>
   since (streaming\<lparr>frame := Some frame1\<rparr>) (fst (closeDecoder chromium (streaming\<lparr>frame := Some frame1\<rparr>)))
     = [DecoderClose, FrameClose frame1]"
proof -
  have h: "frame (streaming\<lparr>frame := Some frame1\<rparr>) = Some frame1"
    "decoder (streaming\<lparr>frame := Some frame1\<rparr>) \<noteq> None" "\<not> is_firefox chromium"
    by (simp_all add: streaming_def chromium_def)
  show ?thesis
    using C6_frames_released [of "streaming\<lparr>frame := Some frame1\<rparr>" frame1 chromium False frame1]
      C6_frames_released [of "streaming\<lparr>frame := Some frame1\<rparr>" frame2 chromium False frame1] h
    by simp
qed

text \<open>
  On Firefox a frame is drawn and leaves the slot without \<^verbatim>\<open>close()\<close> being called
  on it.
\<close>

theorem C6_counterexample:
  "frame (streaming\<lparr>frame := Some frame1\<rparr>) = Some frame1 \<and>
   frame (fst (drawPendingFrame firefox True (streaming\<lparr>frame := Some frame1\<rparr>))) = None \<and>
   FrameClose frame1 \<notin> set (trace (fst (drawPendingFrame firefox True (streaming\<lparr>frame := Some frame1\<rparr>))))"
  by (simp add: drawPendingFrame_def display_size_def drawImage_def closeFrame_def perform_def
      firefox_def streaming_def frame1_def Let_def)

text \<open>
  C7. \<^verbatim>\<open>stopStream\<close> should leave the streamer without a connection, and a second
  call should change nothing. With a decoder that has closed itself this is not what
  happens. In the state the sample session reaches when a decode error follows the first
  picture, \<^verbatim>\<open>stopStream\<close> closes the socket, clears the timer and calls
  \<^verbatim>\<open>close()\<close> on the decoder, which raises: the call ends with the exception and the
  socket variable still set, so that a later \<^verbatim>\<open>ensureStream\<close> opens nothing; a second
  \<^verbatim>\<open>stopStream\<close> returns and clears the variable, so two calls do not end where one
  call ends.
\<close>

theorem C7_stopStream_closed_decoder:
  "map_option dstate (decoder decoder_failed) = Some Closed \<and>
   snd (media_stopStream chromium decoder_failed) = Raised InvalidStateError \<and>
   ws (fst (media_stopStream chromium decoder_failed)) \<and>
   since decoder_failed (fst (media_stopStream chromium decoder_failed)) =
     [WsClose, ClearInterval, DecoderClose] \<and>
   sockets_opened (since (fst (media_stopStream chromium decoder_failed))
     (media_ensureStream None (fst (media_stopStream chromium decoder_failed)))) = 0 \<and>
   snd (media_stopStream chromium (fst (media_stopStream chromium decoder_failed))) = Returned \<and>
   \<not> ws (fst (media_stopStream chromium (fst (media_stopStream chromium decoder_failed)))) \<and>
   variables (fst (media_stopStream chromium (fst (media_stopStream chromium decoder_failed)))) \<noteq>
     variables (fst (media_stopStream chromium decoder_failed))"
proof -
  have c: "close_closed_raises chromium" by (simp add: chromium_def)
  define s1 where "s1 = decoder_failed\<lparr>stop := True, ensuring := False, ping_timer := False,
     codec := [], decoder := None, trace := trace decoder_failed @ [WsClose, ClearInterval, DecoderClose]\<rparr>"
  have 1: "media_stopStream chromium decoder_failed = (s1, Raised InvalidStateError)"
    unfolding s1_def
    by (rule media_stopStream_closed_raises [OF decoder_failed_fields(1) _ c decoder_failed_fields(6,2,3)])
      simp
  have f: "ws s1" "decoder s1 = None" "stop s1" "\<not> ping_timer s1"
    "trace s1 = trace decoder_failed @ [WsClose, ClearInterval, DecoderClose]"
    by (simp_all add: s1_def decoder_failed_fields)
  have 2: "media_stopStream chromium s1 =
      (s1\<lparr>stop := True, ensuring := False, missed_heartbeats := 0, fps_accum := 0, ws := False,
          trace := trace s1 @ [WsClose, SetInactive, SetInfo False False []]\<rparr>, Returned)"
    using f by (simp add: media_stopStream_def wsForceClose_def wsCloseHandler_def perform_def Let_def)
  have 3: "variables (s1\<lparr>stop := True, ensuring := False, missed_heartbeats := 0, fps_accum := 0, ws := False,
          trace := trace s1 @ [WsClose, SetInactive, SetInfo False False []]\<rparr>) \<noteq> variables s1"
  proof
    assume "variables (s1\<lparr>stop := True, ensuring := False, missed_heartbeats := 0, fps_accum := 0, ws := False,
          trace := trace s1 @ [WsClose, SetInactive, SetInfo False False []]\<rparr>) = variables s1"
    then have "ws (variables (s1\<lparr>stop := True, ensuring := False, missed_heartbeats := 0, fps_accum := 0, ws := False,
          trace := trace s1 @ [WsClose, SetInactive, SetInfo False False []]\<rparr>)) = ws (variables s1)"
      by simp
    then show False using f(1) by (simp add: variables_def)
  qed
  show ?thesis
    using 3
    by (simp add: 1 2 f decoder_failed_fields since_def sockets_opened_def
        media_ensureStream_def ensureMedia_def)
qed

text \<open>
  C8. \<^verbatim>\<open>ensureStream\<close> opens a socket exactly when the streamer holds none and has not
  opened one since it was last stopped (it clears the stop flag itself); calling it any
  number of times in a row is the same as calling it once, so a second call opens nothing.
  In general \<^verbatim>\<open>__ensureMedia\<close> opens a socket only if there is none and the streamer
  is not stopped and, unless it is the retry timeout calling, the ensuring flag is not set.
\<close>

theorem C8_no_duplicate_connection:
  "sockets_opened (since s (media_ensureStream st s)) = (if \<not> ws s \<and> \<not> ensuring s then 1 else 0) \<and>
   (media_ensureStream st ^^ Suc n) s = media_ensureStream st s \<and>
   sockets_opened (since (media_ensureStream st s) (media_ensureStream st (media_ensureStream st s))) = 0 \<and>
   sockets_opened (since s (ensureMedia internal s)) =
     (if \<not> ws s \<and> \<not> stop s \<and> (\<not> ensuring s \<or> internal) then 1 else 0)"
proof (intro conjI)
  show "sockets_opened (since s (media_ensureStream st s)) = (if \<not> ws s \<and> \<not> ensuring s then 1 else 0)"
    by (simp add: since_def sockets_opened_def media_ensureStream_def ensureMedia_def perform_def)
  show "(media_ensureStream st ^^ Suc n) s = media_ensureStream st s"
    by (rule media_ensureStream_many)
  show "sockets_opened (since (media_ensureStream st s)
      (media_ensureStream st (media_ensureStream st s))) = 0"
    by (simp add: media_ensureStream_again since_def sockets_opened_def)
  show "sockets_opened (since s (ensureMedia internal s)) =
     (if \<not> ws s \<and> \<not> stop s \<and> (\<not> ensuring s \<or> internal) then 1 else 0)"
    by (simp add: since_def sockets_opened_def ensureMedia_def perform_def)
qed

theorem C8_no_duplicate_connection_witness:
  "sockets_opened (since (MediaStreamer 0 640 480)
     (media_ensureStream None (MediaStreamer 0 640 480))) = 1 \<and>
   sockets_opened (since (media_ensureStream None (MediaStreamer 0 640 480))
     (media_ensureStream None (media_ensureStream None (MediaStreamer 0 640 480)))) = 0 \<and>
   sockets_opened (since streaming (media_ensureStream None streaming)) = 0 \<and>
   sockets_opened (since streaming (ensureMedia True streaming)) = 0"
proof -
  have f: "\<not> ws (MediaStreamer 0 640 480)" "\<not> ensuring (MediaStreamer 0 640 480)"
    "ws streaming"
    by (simp_all add: MediaStreamer_def streaming_def)
  show ?thesis
    using C8_no_duplicate_connection [of "MediaStreamer 0 640 480" None 0 True]
      C8_no_duplicate_connection [of streaming None 0 True]
    by (simp add: f)
qed

text \<open>
  C9. For an orientation of 0, 90, 180 or 270 and a pending frame, after the draw (whether
  or not \<^verbatim>\<open>drawImage\<close> raised) the canvas has the frame's display width and height
  for 0 and 180, and has them swapped for 90 and 270; the layout hook is invoked once if
  that size differs from the one the canvas had, and not at all otherwise.
\<close>

theorem C9_orientation:
  assumes "frame s = Some f" and "orient s \<in> {0, 90, 180, 270}"
  shows "(orient s = 0 \<or> orient s = 180 \<longrightarrow>
            canvas_width (fst (drawPendingFrame p ok s)) = displayWidth f \<and>
            canvas_height (fst (drawPendingFrame p ok s)) = displayHeight f) \<and>
         (orient s = 90 \<or> orient s = 270 \<longrightarrow>
            canvas_width (fst (drawPendingFrame p ok s)) = displayHeight f \<and>
            canvas_height (fst (drawPendingFrame p ok s)) = displayWidth f) \<and>
         count_list (since s (fst (drawPendingFrame p ok s))) Organize =
           (if canvas_width s = canvas_width (fst (drawPendingFrame p ok s)) \<and>
               canvas_height s = canvas_height (fst (drawPendingFrame p ok s)) then 0 else 1)"
proof -
  note d = draw_fields [OF assms(1), of p ok]
  have "count_list (since s (fst (drawPendingFrame p ok s))) Organize =
      (if (canvas_width s, canvas_height s) \<noteq> display_size (orient s) f then 1 else 0)"
    by (simp add: draw_trace [OF assms(1)] since_def)
  then show ?thesis
    using assms(2) by (auto simp: d display_size_def)
qed

theorem C9_orientation_witness:
  "canvas_width (fst (drawPendingFrame chromium True (streaming\<lparr>frame := Some frame1, orient := 90\<rparr>)))
     = 1080 \<and>
   canvas_height (fst (drawPendingFrame chromium True (streaming\<lparr>frame := Some frame1, orient := 90\<rparr>)))
     = 1920 \<and>
   count_list (since (streaming\<lparr>frame := Some frame1, orient := 90\<rparr>)
     (fst (drawPendingFrame chromium True (streaming\<lparr>frame := Some frame1, orient := 90\<rparr>)))) Organize = 1"
proof -
  have h: "frame (streaming\<lparr>frame := Some frame1, orient := 90\<rparr>) = Some frame1"
    "orient (streaming\<lparr>frame := Some frame1, orient := 90\<rparr>) \<in> {0, 90, 180, 270}"
    by (simp_all add: streaming_def)
  have v: "orient (streaming\<lparr>frame := Some frame1, orient := 90\<rparr>) = 90"
    "canvas_width (streaming\<lparr>frame := Some frame1, orient := 90\<rparr>) = 640"
    "displayWidth frame1 = 1920" "displayHeight frame1 = 1080"
    by (simp_all add: streaming_def frame1_def)
  show ?thesis
    using C9_orientation [OF h, of chromium True] by (simp add: v)
qed

end
